theory Spec2Isabelle
  imports Main "HOL-Library.Word" "HOL-Library.Sublist"
begin

section \<open>Data model of events\_processor.go\<close>

text \<open>
  The event identifiers are package constants of type int32 declared outside this file.
  processEvent switches on four of them; Go refuses a switch with two equal constant
  cases, so the four are pairwise distinct, and they are modelled as the constructors
  of a datatype, with one more constructor for every other identifier.
\<close>

datatype EventID =
    VfsWriteEventID
  | VfsWritevEventID
  | SchedProcessExecEventID
  | SocketEventID
  | OtherEventID "32 word"

text \<open>
  A value of the argument map (Go: interface{}). The dispatcher recovers string, uint32,
  uint64 and int64 by type assertion; fmt.Sprint turns any value into text. A value of
  any other dynamic type is carried as VOther with its fmt.Sprint text.
\<close>

datatype argval =
    VString string
  | VUint32 "32 word"
  | VUint64 "64 word"
  | VInt64 "64 word"
  | VOther string

datatype error =
    Errorf string
  | OSError string

text \<open>
  The context of one event. Only the fields events\_processor.go reads are modelled.
  The struct is declared outside this file: the identifiers and the timestamp are
  unsigned and are only compared and printed, so they are naturals; Retval is only
  compared, so it is an integer; Argnum is incremented, so it is a machine word whose
  width is left open (the type parameter is instantiated with a word type).
\<close>

record 'n eventContext =
  EventID :: EventID
  Pid :: nat
  HostPid :: nat
  MntID :: nat
  Ts :: nat
  Retval :: int
  Argnum :: "'n"

record ArgMeta =
  Name :: string
  Type :: string

record IntFilter =
  ret_Equal :: "int list"
  ret_NotEqual :: "int list"
  Greater :: int
  Less :: int

record ArgFilterVal =
  arg_Equal :: "string list"
  arg_NotEqual :: "string list"

text \<open>
  t.config, flattened. ArgFilter.Filters is a Go map of maps; the inner map is iterated
  with range, so it is an association list in the order of one iteration (a missing
  event identifier gives the empty list, as ranging over a nil map does).
\<close>

record Config =
  RetFilter_Enabled :: bool
  RetFilter_Filters :: "EventID \<rightharpoonup> IntFilter"
  ArgFilter_Enabled :: bool
  ArgFilter_Filters :: "EventID \<Rightarrow> (string \<times> ArgFilterVal) list"
  Capture_FileWrite :: bool
  Capture_Exec :: bool
  Capture_Profile :: bool
  Capture_OutputPath :: string
  Output_ExecHash :: bool

text \<open>The sentinels of the numeric bounds, package constants declared outside this file.\<close>

record sentinels =
  GreaterNotSetInt :: int
  LessNotSetInt :: int

record fileExecInfo =
  LastCtime :: "64 word"
  Hash :: string

record profilerInfo =
  Times :: int
  FirstExecutionTs :: nat

datatype bpf_call = GetMap string | GetValue EventID | DeleteKey EventID

text \<open>
  The tracer's state. 'b is the bucket cache of process identifiers per mount
  namespace and 'c the hash cache; both are implemented outside this file and are
  reached only through the operations of the environment below.
  removeSocketTailOnce is the package-level sync.Once (True once it has run).
  The last four fields are the effects outside the tracer: the calls of CopyFileByPath
  (source, destination), the files that CopyFileByPath has written (by path, with
  their bytes), the calls on the kernel map, and the errors given to t.handleError.
\<close>

record ('b, 'c) Tracee =
  config :: Config
  writtenFiles :: "string \<rightharpoonup> string"
  capturedFiles :: "string \<rightharpoonup> 64 word"
  fileHashes :: "'c"
  pidsInMntns :: "'b"
  profiledFiles :: "string \<rightharpoonup> profilerInfo"
  bpfModule :: "string \<rightharpoonup> (EventID \<rightharpoonup> 32 word)"
  removeSocketTailOnce :: bool
  copy_calls :: "(string \<times> string) list"
  output_files :: "string \<rightharpoonup> string"
  bpf_calls :: "bpf_call list"
  handled_errors :: "error list"

text \<open>
  What the code calls and this file does not define: the two caches, the path functions
  of the standard library, the operating system (the answers of its calls, and the
  bytes of a file that is read), the hash function and the kernel's answer to a
  deletion. Each is a parameter.
\<close>

record ('b, 'c) env =
  AddBucketItem :: "'b \<Rightarrow> nat \<Rightarrow> nat \<Rightarrow> 'b"
  ForceAddBucketItem :: "'b \<Rightarrow> nat \<Rightarrow> nat \<Rightarrow> 'b"
  GetBucket :: "'b \<Rightarrow> nat \<Rightarrow> nat list"
  cache_Get :: "'c \<Rightarrow> string \<Rightarrow> fileExecInfo option \<times> 'c"
  cache_Add :: "'c \<Rightarrow> string \<Rightarrow> fileExecInfo \<Rightarrow> 'c"
  filepath_Join :: "string \<Rightarrow> string \<Rightarrow> string"
  filepath_Base :: "string \<Rightarrow> string"
  os_MkdirAll :: "string \<Rightarrow> error option"
  os_Stat :: "string \<Rightarrow> error + bool"
  os_Open :: "string \<Rightarrow> error option"
  os_Create :: "string \<Rightarrow> error option"
  io_Copy :: "string \<Rightarrow> string \<Rightarrow> error option"
  file_bytes :: "string \<Rightarrow> string"
  getFileHash :: "string \<Rightarrow> string"
  bpf_DeleteKey :: "EventID \<Rightarrow> error option"

text \<open>What processEvent reads and writes: the tracer, and the event passed by reference.\<close>

record ('b, 'c, 'n) proc =
  st_tracee :: "('b, 'c) Tracee"
  st_ctx :: "'n eventContext"
  st_args :: "string \<rightharpoonup> argval"
  st_argMetas :: "ArgMeta list"

section \<open>Formatting\<close>

text \<open>The verb \%d and strconv.Itoa: decimal digits, a minus sign for a negative number.\<close>

fun FormatUint :: "nat \<Rightarrow> string" where
  "FormatUint n =
     (if n < 10 then [''0123456789'' ! n]
      else FormatUint (n div 10) @ [''0123456789'' ! (n mod 10)])"

declare FormatUint.simps [simp del]

definition FormatInt :: "int \<Rightarrow> string" where
  "FormatInt i = (if i < 0 then ''-'' @ FormatUint (nat (- i)) else FormatUint (nat i))"

fun Sprint :: "argval \<Rightarrow> string" where
  "Sprint (VString s) = s"
| "Sprint (VUint32 w) = FormatUint (unat w)"
| "Sprint (VUint64 w) = FormatUint (unat w)"
| "Sprint (VInt64 w) = FormatInt (sint w)"
| "Sprint (VOther s) = s"

section \<open>shouldProcessEvent\<close>

text \<open>Lines 30-36: the loop over filter.Equal that sets match.\<close>

fun ret_Equal_loop :: "int \<Rightarrow> int list \<Rightarrow> bool" where
  "ret_Equal_loop retVal [] = False"
| "ret_Equal_loop retVal (f # fs) = (if retVal = f then True else ret_Equal_loop retVal fs)"

text \<open>Lines 40-44: the loop over filter.NotEqual; True when it returns false.\<close>

fun ret_NotEqual_loop :: "int \<Rightarrow> int list \<Rightarrow> bool" where
  "ret_NotEqual_loop retVal [] = False"
| "ret_NotEqual_loop retVal (f # fs) = (if retVal = f then True else ret_NotEqual_loop retVal fs)"

text \<open>Lines 29-50: True when none of the four return false statements is reached.\<close>

definition retFilter_pass :: "sentinels \<Rightarrow> IntFilter \<Rightarrow> int \<Rightarrow> bool" where
  "retFilter_pass k flt retVal =
     (let match = ret_Equal_loop retVal (ret_Equal flt) in
      if \<not> match \<and> length (ret_Equal flt) > 0 then False
      else if ret_NotEqual_loop retVal (ret_NotEqual flt) then False
      else if Greater flt \<noteq> GreaterNotSetInt k \<and> retVal \<le> Greater flt then False
      else if Less flt \<noteq> LessNotSetInt k \<and> retVal \<ge> Less flt then False
      else True)"

text \<open>
  Lines 64 and 73, the test of one pattern:
  argValStr == f || (f[len(f)-1] == '*' \&\& strings.HasPrefix(argValStr, f[0:len(f)-1])).
  The right operand is evaluated only when the strings differ; it indexes f at
  len(f)-1, which panics (None) when f is empty.
\<close>

definition pattern_test :: "string \<Rightarrow> string \<Rightarrow> bool option" where
  "pattern_test argValStr f =
     (if argValStr = f then Some True
      else if f = [] then None
      else Some (last f = CHR ''*'' \<and> prefix (butlast f) argValStr))"

text \<open>Lines 62-68: the loop that sets match; None when a test panics.\<close>

fun arg_Equal_loop :: "string \<Rightarrow> string list \<Rightarrow> bool option" where
  "arg_Equal_loop argValStr [] = Some False"
| "arg_Equal_loop argValStr (f # fs) =
     (case pattern_test argValStr f of
        None \<Rightarrow> None
      | Some True \<Rightarrow> Some True
      | Some False \<Rightarrow> arg_Equal_loop argValStr fs)"

text \<open>Lines 72-76: Some True when the loop returns false; None when a test panics.\<close>

fun arg_NotEqual_loop :: "string \<Rightarrow> string list \<Rightarrow> bool option" where
  "arg_NotEqual_loop argValStr [] = Some False"
| "arg_NotEqual_loop argValStr (f # fs) =
     (case pattern_test argValStr f of
        None \<Rightarrow> None
      | Some True \<Rightarrow> Some True
      | Some False \<Rightarrow> arg_NotEqual_loop argValStr fs)"

text \<open>
  Lines 55-77: the loop over the configured argument names. Some True when the loop
  ends (the function then returns true at line 80), Some False at a return false,
  None when a pattern test panics.
\<close>

fun argFilters_loop :: "(string \<rightharpoonup> argval) \<Rightarrow> (string \<times> ArgFilterVal) list \<Rightarrow> bool option" where
  "argFilters_loop args [] = Some True"
| "argFilters_loop args ((argName, flt) # rest) =
     (case args argName of
        None \<Rightarrow> argFilters_loop args rest
      | Some argVal \<Rightarrow>
          (let argValStr = Sprint argVal in
           case arg_Equal_loop argValStr (arg_Equal flt) of
             None \<Rightarrow> None
           | Some match \<Rightarrow>
               if \<not> match \<and> length (arg_Equal flt) > 0 then Some False
               else (case arg_NotEqual_loop argValStr (arg_NotEqual flt) of
                       None \<Rightarrow> None
                     | Some True \<Rightarrow> Some False
                     | Some False \<Rightarrow> argFilters_loop args rest)))"

definition shouldProcessEvent ::
  "sentinels \<Rightarrow> ('b, 'c) Tracee \<Rightarrow> 'n eventContext \<Rightarrow> (string \<rightharpoonup> argval) \<Rightarrow> bool option" where
  "shouldProcessEvent k t ctx args =
     (if RetFilter_Enabled (config t) \<and>
         (case RetFilter_Filters (config t) (EventID ctx) of
            None \<Rightarrow> False
          | Some flt \<Rightarrow> \<not> retFilter_pass k flt (Retval ctx))
      then Some False
      else if ArgFilter_Enabled (config t)
      then argFilters_loop args (ArgFilter_Filters (config t) (EventID ctx))
      else Some True)"

section \<open>CopyFileByPath, updateProfile, removeSocketTail\<close>

text \<open>
  Lines 239-262. The second argument holds the files written so far; the result is the
  error and the files after the call. os.Create leaves dst empty and io.Copy fills it
  with the bytes of src. What a failed io.Copy has written is not modelled: dst is
  left empty. The deferred Close calls return nothing the function uses.
\<close>

definition CopyFileByPath ::
  "('b, 'c) env \<Rightarrow> (string \<rightharpoonup> string) \<Rightarrow> string \<Rightarrow> string \<Rightarrow>
   error option \<times> (string \<rightharpoonup> string)" where
  "CopyFileByPath e files src dst =
     (case os_Stat e src of
        Inl err \<Rightarrow> (Some err, files)
      | Inr isRegular \<Rightarrow>
          if \<not> isRegular then (Some (Errorf (src @ '' is not a regular file'')), files)
          else (case os_Open e src of
                  Some err \<Rightarrow> (Some err, files)
                | None \<Rightarrow>
                    (case os_Create e dst of
                       Some err \<Rightarrow> (Some err, files)
                     | None \<Rightarrow>
                         (case io_Copy e dst src of
                            Some err \<Rightarrow> (Some err, files(dst \<mapsto> []))
                          | None \<Rightarrow> (None, files(dst \<mapsto> file_bytes e src))))))"

text \<open>Lines 226-236.\<close>

definition updateProfile :: "('b, 'c) Tracee \<Rightarrow> string \<Rightarrow> nat \<Rightarrow> ('b, 'c) Tracee" where
  "updateProfile t sourceFilePath executionTs =
     (case profiledFiles t sourceFilePath of
        None \<Rightarrow>
          t\<lparr>profiledFiles := (profiledFiles t)
               (sourceFilePath \<mapsto> \<lparr>Times = 1, FirstExecutionTs = executionTs\<rparr>)\<rparr>
      | Some pf \<Rightarrow>
          t\<lparr>profiledFiles := (profiledFiles t)
               (sourceFilePath \<mapsto> pf\<lparr>Times := Times pf + 1\<rparr>)\<rparr>)"

text \<open>
  Lines 210-224. GetMap fails when the module has no map of that name, GetValue when
  the map has no entry for the key; DeleteKey removes the entry unless the kernel
  refuses, and then the error goes to t.handleError.
\<close>

definition removeSocketTail :: "('b, 'c) env \<Rightarrow> ('b, 'c) Tracee \<Rightarrow> ('b, 'c) Tracee" where
  "removeSocketTail e t =
     (let t1 = t\<lparr>bpf_calls := bpf_calls t @ [GetMap ''sys_exit_tails'']\<rparr> in
      case bpfModule t1 ''sys_exit_tails'' of
        None \<Rightarrow> t1
      | Some bpfMap \<Rightarrow>
          (let t2 = t1\<lparr>bpf_calls := bpf_calls t1 @ [GetValue SocketEventID]\<rparr> in
           case bpfMap SocketEventID of
             None \<Rightarrow> t2
           | Some v \<Rightarrow>
               (let t3 = t2\<lparr>bpf_calls := bpf_calls t2 @ [DeleteKey SocketEventID]\<rparr> in
                case bpf_DeleteKey e SocketEventID of
                  Some err \<Rightarrow> t3\<lparr>handled_errors := handled_errors t3 @ [err]\<rparr>
                | None \<Rightarrow>
                    t3\<lparr>bpfModule := (bpfModule t3)
                         (''sys_exit_tails'' \<mapsto> bpfMap(SocketEventID := None))\<rparr>)))"

text \<open>Line 204, removeSocketTailOnce.Do: the function runs unless the Once has run.\<close>

definition removeSocketTailOnce_Do :: "('b, 'c) env \<Rightarrow> ('b, 'c) Tracee \<Rightarrow> ('b, 'c) Tracee" where
  "removeSocketTailOnce_Do e t =
     (if removeSocketTailOnce t then t
      else (removeSocketTail e t)\<lparr>removeSocketTailOnce := True\<rparr>)"

section \<open>processEvent\<close>

text \<open>
  The type assertions args[name].(string), .(uint32), .(uint64) and .(int64) in their
  two-result form: None when the key is absent (the nil interface) or the value has
  another dynamic type.
\<close>

fun assert_string :: "argval option \<Rightarrow> string option" where
  "assert_string (Some (VString s)) = Some s"
| "assert_string _ = None"

fun assert_uint32 :: "argval option \<Rightarrow> 32 word option" where
  "assert_uint32 (Some (VUint32 w)) = Some w"
| "assert_uint32 _ = None"

fun assert_uint64 :: "argval option \<Rightarrow> 64 word option" where
  "assert_uint64 (Some (VUint64 w)) = Some w"
| "assert_uint64 _ = None"

fun assert_int64 :: "argval option \<Rightarrow> 64 word option" where
  "assert_int64 (Some (VInt64 w)) = Some w"
| "assert_int64 _ = None"

text \<open>Line 107: the key of the written-file index.\<close>

definition write_fileName :: "nat \<Rightarrow> 32 word \<Rightarrow> 64 word \<Rightarrow> string" where
  "write_fileName mntID dev inode =
     FormatUint mntID @ ''/write.dev-'' @ FormatUint (unat dev) @ ''.inode-'' @
     FormatUint (unat inode)"

text \<open>Lines 87-115, the case of VfsWriteEventID and VfsWritevEventID.\<close>

definition process_vfs_write ::
  "('b, 'c, 'n) proc \<Rightarrow> error option \<times> ('b, 'c, 'n) proc" where
  "process_vfs_write p =
     (let t = st_tracee p; ctx = st_ctx p; args = st_args p in
      if Capture_FileWrite (config t) then
        (case assert_string (args ''pathname'') of
           None \<Rightarrow> (Some (Errorf ''error parsing vfs_write args''), p)
         | Some filePath \<Rightarrow>
             if filePath = [] \<or> hd filePath \<noteq> CHR ''/'' then (None, p)
             else
               (case assert_uint32 (args ''dev'') of
                  None \<Rightarrow> (Some (Errorf ''error parsing vfs_write args''), p)
                | Some dev \<Rightarrow>
                    (case assert_uint64 (args ''inode'') of
                       None \<Rightarrow> (Some (Errorf ''error parsing vfs_write args''), p)
                     | Some inode \<Rightarrow>
                         (let fileName = write_fileName (MntID ctx) dev inode
                          in if writtenFiles t fileName = Some filePath then (None, p)
                             else (None, p\<lparr>st_tracee :=
                                     t\<lparr>writtenFiles := (writtenFiles t)(fileName \<mapsto> filePath)\<rparr>\<rparr>)))))
      else (None, p))"

text \<open>Line 142: the path of the executed file under the root of process pid.\<close>

definition proc_root_path :: "nat \<Rightarrow> string \<Rightarrow> string" where
  "proc_root_path pid filePath = ''/proc/'' @ FormatUint pid @ ''/root'' @ filePath"

text \<open>Line 148: the key of the captured-file index and of the hash cache.\<close>

definition capturedFileID_of :: "nat \<Rightarrow> string \<Rightarrow> string" where
  "capturedFileID_of mntID sourceFilePath = FormatUint mntID @ '':'' @ sourceFilePath"

text \<open>Lines 150 and 154: the directory of the namespace and the file of the capture.\<close>

definition destinationDirPath_of :: "('b, 'c) env \<Rightarrow> Config \<Rightarrow> nat \<Rightarrow> string" where
  "destinationDirPath_of e cfg mntID =
     filepath_Join e (Capture_OutputPath cfg) (FormatUint mntID)"

definition destinationFilePath_of ::
  "('b, 'c) env \<Rightarrow> Config \<Rightarrow> nat \<Rightarrow> nat \<Rightarrow> string \<Rightarrow> string" where
  "destinationFilePath_of e cfg mntID ts filePath =
     filepath_Join e (destinationDirPath_of e cfg mntID)
       (''exec.'' @ FormatUint ts @ ''.'' @ filepath_Base e filePath)"

text \<open>
  Lines 149-172, the capture of the executed file. The result is the error returned
  from inside the block (None when the block is left normally) and the tracer.
\<close>

definition capture_exec ::
  "('b, 'c) env \<Rightarrow> ('b, 'c) Tracee \<Rightarrow> 'n eventContext \<Rightarrow> string \<Rightarrow> string \<Rightarrow> 64 word \<Rightarrow> string \<Rightarrow>
   error option \<times> ('b, 'c) Tracee" where
  "capture_exec e t ctx filePath sourceFilePath sourceFileCtime capturedFileID =
     (let destinationDirPath = destinationDirPath_of e (config t) (MntID ctx) in
      case os_MkdirAll e destinationDirPath of
        Some err \<Rightarrow> (Some err, t)
      | None \<Rightarrow>
          (let destinationFilePath =
                 destinationFilePath_of e (config t) (MntID ctx) (Ts ctx) filePath;
               t1 = (if Capture_Profile (config t)
                     then updateProfile t
                            (filepath_Join e destinationDirPath (''exec.'' @ filepath_Base e filePath)
                               @ '':'' @ FormatInt (sint sourceFileCtime))
                            (Ts ctx)
                     else t)
           in if capturedFiles t1 capturedFileID \<noteq> Some sourceFileCtime then
                (let t2 = t1\<lparr>copy_calls := copy_calls t1 @ [(sourceFilePath, destinationFilePath)]\<rparr> in
                 case CopyFileByPath e (output_files t2) sourceFilePath destinationFilePath of
                   (Some err, files) \<Rightarrow> (Some err, t2\<lparr>output_files := files\<rparr>)
                 | (None, files) \<Rightarrow>
                     (None, t2\<lparr>output_files := files,
                              capturedFiles := (capturedFiles t2)(capturedFileID \<mapsto> sourceFileCtime)\<rparr>))
              else (None, t1)))"

text \<open>Lines 187-189: the hash is computed from the source path and stored in the cache.\<close>

definition recompute_hash ::
  "('b, 'c) env \<Rightarrow> 'c \<Rightarrow> string \<Rightarrow> 64 word \<Rightarrow> string \<Rightarrow> string \<times> 'c" where
  "recompute_hash e cache sourceFilePath sourceFileCtime capturedFileID =
     (let currentHash = getFileHash e sourceFilePath in
      (currentHash,
       cache_Add e cache capturedFileID \<lparr>LastCtime = sourceFileCtime, Hash = currentHash\<rparr>))"

text \<open>
  Lines 175-190: the hash given to the event and the cache after the lookup. The type
  assertion of the cached value cannot fail, since this file stores only fileExecInfo.
\<close>

definition lookup_hash ::
  "('b, 'c) env \<Rightarrow> 'c \<Rightarrow> string \<Rightarrow> 64 word \<Rightarrow> string \<Rightarrow> string \<times> 'c" where
  "lookup_hash e cache sourceFilePath sourceFileCtime capturedFileID =
     (case cache_Get e cache capturedFileID of
        (None, cache1) \<Rightarrow>
          recompute_hash e cache1 sourceFilePath sourceFileCtime capturedFileID
      | (Some hashInfoObj, cache1) \<Rightarrow>
          if LastCtime hashInfoObj = sourceFileCtime then (Hash hashInfoObj, cache1)
          else recompute_hash e cache1 sourceFilePath sourceFileCtime capturedFileID)"

text \<open>Lines 174-196.\<close>

definition hash_exec ::
  "('b, 'c) env \<Rightarrow> ('b, 'c, 'w::len word) proc \<Rightarrow> string \<Rightarrow> 64 word \<Rightarrow> string \<Rightarrow>
   ('b, 'c, 'w word) proc" where
  "hash_exec e p sourceFilePath sourceFileCtime capturedFileID =
     (case lookup_hash e (fileHashes (st_tracee p)) sourceFilePath sourceFileCtime capturedFileID of
        (currentHash, cache2) \<Rightarrow>
          p\<lparr>st_tracee := (st_tracee p)\<lparr>fileHashes := cache2\<rparr>,
            st_argMetas := st_argMetas p @ [\<lparr>Name = ''sha256'', Type = ''const char*''\<rparr>],
            st_ctx := (st_ctx p)\<lparr>Argnum := Argnum (st_ctx p) + 1\<rparr>,
            st_args := (st_args p)(''sha256'' \<mapsto> VString currentHash)\<rparr>)"

text \<open>
  Lines 141-198, the body of the loop for one pid. Every path through the body leaves
  the loop: by a return (the error is the first component) or by the break at line
  198, where err is nil (the first component is None).
\<close>

definition exec_body ::
  "('b, 'c) env \<Rightarrow> ('b, 'c, 'w::len word) proc \<Rightarrow> string \<Rightarrow> nat \<Rightarrow>
   error option \<times> ('b, 'c, 'w word) proc" where
  "exec_body e p filePath pid =
     (let t = st_tracee p; ctx = st_ctx p;
          sourceFilePath = proc_root_path pid filePath in
      case assert_int64 (st_args p ''ctime'') of
        None \<Rightarrow> (Some (Errorf ''error parsing sched_process_exec args: ctime''), p)
      | Some sourceFileCtime \<Rightarrow>
          (let capturedFileID = capturedFileID_of (MntID ctx) sourceFilePath in
           case (if Capture_Exec (config t)
                 then capture_exec e t ctx filePath sourceFilePath sourceFileCtime capturedFileID
                 else (None, t)) of
             (Some err, t1) \<Rightarrow> (Some err, p\<lparr>st_tracee := t1\<rparr>)
           | (None, t1) \<Rightarrow>
               (None,
                if Output_ExecHash (config t)
                then hash_exec e (p\<lparr>st_tracee := t1\<rparr>) sourceFilePath sourceFileCtime capturedFileID
                else p\<lparr>st_tracee := t1\<rparr>)))"

text \<open>
  Lines 137-200: var err error; for \_, pid := range pids \{ ... \}; return err.
  With no pid the loop does not run and err is nil. With a first pid the body runs
  for it and leaves the loop, so the remaining pids are not visited.
\<close>

fun exec_loop ::
  "('b, 'c) env \<Rightarrow> ('b, 'c, 'w::len word) proc \<Rightarrow> string \<Rightarrow> nat list \<Rightarrow>
   error option \<times> ('b, 'c, 'w word) proc" where
  "exec_loop e p filePath [] = (None, p)"
| "exec_loop e p filePath (pid # pids) = exec_body e p filePath pid"

text \<open>Lines 119-124: the event's process is added to the bucket of its mount namespace.\<close>

definition bucket_insert ::
  "('b, 'c) env \<Rightarrow> ('b, 'c) Tracee \<Rightarrow> 'n eventContext \<Rightarrow> ('b, 'c) Tracee" where
  "bucket_insert e t ctx =
     t\<lparr>pidsInMntns :=
         (if Pid ctx = 1
          then ForceAddBucketItem e (pidsInMntns t) (MntID ctx) (HostPid ctx)
          else AddBucketItem e (pidsInMntns t) (MntID ctx) (HostPid ctx))\<rparr>"

text \<open>Lines 117-201, the case of SchedProcessExecEventID.\<close>

definition process_sched_process_exec ::
  "('b, 'c) env \<Rightarrow> ('b, 'c, 'w::len word) proc \<Rightarrow> error option \<times> ('b, 'c, 'w word) proc" where
  "process_sched_process_exec e p =
     (let t = st_tracee p; ctx = st_ctx p;
          t1 = bucket_insert e t ctx;
          p1 = p\<lparr>st_tracee := t1\<rparr>
      in if Capture_Exec (config t) \<or> Output_ExecHash (config t) then
           (case assert_string (st_args p ''pathname'') of
              None \<Rightarrow> (Some (Errorf ''error parsing sched_process_exec args''), p1)
            | Some filePath \<Rightarrow>
                if filePath = [] \<or> hd filePath \<noteq> CHR ''/'' then (None, p1)
                else exec_loop e p1 filePath (GetBucket e (pidsInMntns t1) (MntID ctx)))
         else (None, p1))"

text \<open>Lines 83-208.\<close>

definition processEvent ::
  "('b, 'c) env \<Rightarrow> ('b, 'c, 'w::len word) proc \<Rightarrow> error option \<times> ('b, 'c, 'w word) proc" where
  "processEvent e p =
     (case EventID (st_ctx p) of
        VfsWriteEventID \<Rightarrow> process_vfs_write p
      | VfsWritevEventID \<Rightarrow> process_vfs_write p
      | SchedProcessExecEventID \<Rightarrow> process_sched_process_exec e p
      | SocketEventID \<Rightarrow> (None, p\<lparr>st_tracee := removeSocketTailOnce_Do e (st_tracee p)\<rparr>)
      | OtherEventID n \<Rightarrow> (None, p))"

section \<open>Sequences of events and a reference environment\<close>

text \<open>
  The caller of processEvent is outside this file. To speak of several events, deliver
  hands a list of events (context, arguments, metadata) to processEvent one after the
  other on the same tracer, going on after an error as the caller does.
\<close>

fun deliver ::
  "('b, 'c) env \<Rightarrow> ('b, 'c) Tracee \<Rightarrow>
   ('w::len word eventContext \<times> (string \<rightharpoonup> argval) \<times> ArgMeta list) list \<Rightarrow> ('b, 'c) Tracee" where
  "deliver e t [] = t"
| "deliver e t ((ctx, args, argMetas) # evs) =
     deliver e
       (st_tracee (snd (processEvent e
          \<lparr>st_tracee = t, st_ctx = ctx, st_args = args, st_argMetas = argMetas\<rparr>)))
       evs"

text \<open>
  filepath.Join of two elements, filepath.Clean and filepath.Base of the Go standard
  library, for slash-separated paths: Join drops empty elements and cleans the result;
  Clean removes empty and dot elements and resolves dot-dot elements; Base is the last
  element after trailing slashes are removed.
\<close>

fun split_slash :: "string \<Rightarrow> string \<Rightarrow> string list" where
  "split_slash acc [] = [rev acc]"
| "split_slash acc (x # xs) =
     (if x = CHR ''/'' then rev acc # split_slash [] xs else split_slash (x # acc) xs)"

fun join_slash :: "string list \<Rightarrow> string" where
  "join_slash [] = []"
| "join_slash [x] = x"
| "join_slash (x # y # ys) = x @ ''/'' @ join_slash (y # ys)"

definition clean_step :: "bool \<Rightarrow> string list \<Rightarrow> string \<Rightarrow> string list" where
  "clean_step rooted st el =
     (if el = [] \<or> el = ''.'' then st
      else if el = ''..'' then
        (case st of
           [] \<Rightarrow> if rooted then [] else [''..'']
         | x # below \<Rightarrow> if x = ''..'' then ''..'' # st else below)
      else el # st)"

definition go_Clean :: "string \<Rightarrow> string" where
  "go_Clean path =
     (if path = [] then ''.''
      else
        (let rooted = (hd path = CHR ''/'');
             body = join_slash (rev (foldl (clean_step rooted) [] (split_slash [] path)))
         in if rooted then ''/'' @ body else if body = [] then ''.'' else body))"

definition go_Join :: "string \<Rightarrow> string \<Rightarrow> string" where
  "go_Join a b =
     (let elems = filter (\<lambda>s. s \<noteq> []) [a, b]
      in if elems = [] then [] else go_Clean (join_slash elems))"

definition go_Base :: "string \<Rightarrow> string" where
  "go_Base path =
     (if path = [] then ''.''
      else
        (let stripped = rev (dropWhile (\<lambda>c. c = CHR ''/'') (rev path));
             last_elem = rev (takeWhile (\<lambda>c. c \<noteq> CHR ''/'') (rev stripped))
         in if last_elem = [] then ''/'' else last_elem))"

text \<open>
  An environment to run the definitions on concrete events: unbounded buckets and an
  unbounded cache, the path functions above, an operating system where exactly the
  listed paths are regular files and nothing else fails, fixed bytes per file, and a
  hash that is a fixed text per path.
\<close>

definition ref_env :: "string list \<Rightarrow> (nat \<Rightarrow> nat list, string \<rightharpoonup> fileExecInfo) env" where
  "ref_env regular =
     \<lparr>AddBucketItem = (\<lambda>b key v. b(key := b key @ [v])),
      ForceAddBucketItem = (\<lambda>b key v. b(key := b key @ [v])),
      GetBucket = (\<lambda>b key. b key),
      cache_Get = (\<lambda>c key. (c key, c)),
      cache_Add = (\<lambda>c key v. c(key \<mapsto> v)),
      filepath_Join = go_Join,
      filepath_Base = go_Base,
      os_MkdirAll = (\<lambda>dir. None),
      os_Stat = (\<lambda>src. if src \<in> set regular then Inr True
                        else Inl (OSError ''no such file or directory'')),
      os_Open = (\<lambda>src. None),
      os_Create = (\<lambda>dst. None),
      io_Copy = (\<lambda>dst src. None),
      file_bytes = (\<lambda>path. ''bytes of '' @ path),
      getFileHash = (\<lambda>path. ''hash of '' @ path),
      bpf_DeleteKey = (\<lambda>key. None)\<rparr>"

text \<open>The same environment with a full disk (os.Create fails) and with a capture
  directory that cannot be created (os.MkdirAll fails).\<close>

definition ref_env_disk_full ::
  "string list \<Rightarrow> (nat \<Rightarrow> nat list, string \<rightharpoonup> fileExecInfo) env" where
  "ref_env_disk_full regular =
     (ref_env regular)\<lparr>os_Create := (\<lambda>dst. Some (OSError ''no space left on device''))\<rparr>"

definition ref_env_no_dir ::
  "string list \<Rightarrow> (nat \<Rightarrow> nat list, string \<rightharpoonup> fileExecInfo) env" where
  "ref_env_no_dir regular =
     (ref_env regular)\<lparr>os_MkdirAll := (\<lambda>dir. Some (OSError ''permission denied''))\<rparr>"

definition ref_config :: Config where
  "ref_config =
     \<lparr>RetFilter_Enabled = False, RetFilter_Filters = Map.empty,
      ArgFilter_Enabled = False, ArgFilter_Filters = (\<lambda>ev. []),
      Capture_FileWrite = False, Capture_Exec = False, Capture_Profile = False,
      Capture_OutputPath = ''/tmp/tracee/out'', Output_ExecHash = False\<rparr>"

definition ref_tracee :: "Config \<Rightarrow> (nat \<Rightarrow> nat list, string \<rightharpoonup> fileExecInfo) Tracee" where
  "ref_tracee cfg =
     \<lparr>config = cfg, writtenFiles = Map.empty, capturedFiles = Map.empty,
      fileHashes = Map.empty, pidsInMntns = (\<lambda>key. []), profiledFiles = Map.empty,
      bpfModule = [''sys_exit_tails'' \<mapsto> [SocketEventID \<mapsto> 1]],
      removeSocketTailOnce = False, copy_calls = [], output_files = Map.empty,
      bpf_calls = [], handled_errors = []\<rparr>"

definition ref_ctx :: "EventID \<Rightarrow> 8 word eventContext" where
  "ref_ctx ev =
     \<lparr>EventID = ev, Pid = 7, HostPid = 4242, MntID = 5, Ts = 1000, Retval = 0, Argnum = 3\<rparr>"

definition ref_exec_event ::
  "Config \<Rightarrow> (nat \<Rightarrow> nat list) \<Rightarrow> (string \<rightharpoonup> fileExecInfo) \<Rightarrow> nat \<Rightarrow> 64 word \<Rightarrow>
   (nat \<Rightarrow> nat list, string \<rightharpoonup> fileExecInfo, 8 word) proc" where
  "ref_exec_event cfg buckets hashes hostPid ctime =
     \<lparr>st_tracee = (ref_tracee cfg)\<lparr>pidsInMntns := buckets, fileHashes := hashes\<rparr>,
      st_ctx = (ref_ctx SchedProcessExecEventID)\<lparr>HostPid := hostPid\<rparr>,
      st_args = [''pathname'' \<mapsto> VString ''/bin/ls'', ''ctime'' \<mapsto> VInt64 ctime],
      st_argMetas = []\<rparr>"

definition ref_second_event ::
  "(nat \<Rightarrow> nat list, string \<rightharpoonup> fileExecInfo) Tracee \<Rightarrow> 64 word \<Rightarrow>
   (nat \<Rightarrow> nat list, string \<rightharpoonup> fileExecInfo, 8 word) proc" where
  "ref_second_event t ctime =
     \<lparr>st_tracee = t,
      st_ctx = (ref_ctx SchedProcessExecEventID)\<lparr>HostPid := 4243, Ts := 2000\<rparr>,
      st_args = [''pathname'' \<mapsto> VString ''/bin/ls'', ''ctime'' \<mapsto> VInt64 ctime],
      st_argMetas = []\<rparr>"

text \<open>The part of the tracer that the pruning reads and writes is the same in both.\<close>

definition same_pruning_state :: "('b, 'c) Tracee \<Rightarrow> ('b, 'c) Tracee \<Rightarrow> bool" where
  "same_pruning_state t t' =
     (bpf_calls t' = bpf_calls t \<and> removeSocketTailOnce t' = removeSocketTailOnce t \<and>
      bpfModule t' = bpfModule t \<and> handled_errors t' = handled_errors t)"

definition ref_sentinels :: sentinels where
  "ref_sentinels =
     \<lparr>GreaterNotSetInt = - 9223372036854775808, LessNotSetInt = 9223372036854775807\<rparr>"

section \<open>The filters in the words of the specification\<close>

text \<open>
  The condition of lines 27-52 under which shouldProcessEvent returns false before it
  reads the argument filters: return-value filtering is on, the event's type has a
  filter, and one of its four tests fails.
\<close>

definition retFilter_drops :: "sentinels \<Rightarrow> ('b, 'c) Tracee \<Rightarrow> 'n eventContext \<Rightarrow> bool" where
  "retFilter_drops k t ctx =
     (RetFilter_Enabled (config t) \<and>
      (case RetFilter_Filters (config t) (EventID ctx) of
         None \<Rightarrow> False
       | Some flt \<Rightarrow> \<not> retFilter_pass k flt (Retval ctx)))"

text \<open>
  A pattern as the specification describes it: one that ends in the wildcard marker
  matches the texts that have the pattern without its marker as a prefix, any other
  pattern matches only the text equal to it.
\<close>

definition spec_matches :: "string \<Rightarrow> string \<Rightarrow> bool" where
  "spec_matches argValStr f =
     (if f \<noteq> [] \<and> last f = CHR ''*'' then prefix (butlast f) argValStr else argValStr = f)"

text \<open>
  An entry of the filter table as the specification describes it: an argument that the
  event does not hold is skipped; an argument that it holds must be matched by a
  pattern of the accept list, unless that list is empty, and by no pattern of the
  reject list. The event passes the table when it passes every entry.
\<close>

definition spec_entry_pass :: "(string \<rightharpoonup> argval) \<Rightarrow> string \<times> ArgFilterVal \<Rightarrow> bool" where
  "spec_entry_pass args entry =
     (case args (fst entry) of
        None \<Rightarrow> True
      | Some argVal \<Rightarrow>
          (arg_Equal (snd entry) = [] \<or>
             list_ex (spec_matches (Sprint argVal)) (arg_Equal (snd entry))) \<and>
          \<not> list_ex (spec_matches (Sprint argVal)) (arg_NotEqual (snd entry)))"

definition spec_arg_filters :: "(string \<rightharpoonup> argval) \<Rightarrow> (string \<times> ArgFilterVal) list \<Rightarrow> bool" where
  "spec_arg_filters args table = list_all (spec_entry_pass args) table"

text \<open>
  The test of the empty pattern is reached in a list of patterns: the list holds the
  empty pattern and no pattern before it matches the text.
\<close>

definition empty_pattern_reached :: "string \<Rightarrow> string list \<Rightarrow> bool" where
  "empty_pattern_reached argValStr fs =
     ([] \<in> set fs \<and> \<not> list_ex (spec_matches argValStr) (takeWhile (\<lambda>f. f \<noteq> []) fs))"

text \<open>
  The tests of an entry reach the empty pattern for a text that is not empty: in the
  accept list, or, when the accept list is empty or holds a match, in the reject list.
\<close>

definition spec_entry_aborts :: "string \<Rightarrow> ArgFilterVal \<Rightarrow> bool" where
  "spec_entry_aborts argValStr flt =
     (argValStr \<noteq> [] \<and>
      (empty_pattern_reached argValStr (arg_Equal flt) \<or>
       (arg_Equal flt = [] \<or> list_ex (spec_matches argValStr) (arg_Equal flt)) \<and>
       empty_pattern_reached argValStr (arg_NotEqual flt)))"

section \<open>The return-value filter\<close>

lemma ret_Equal_loop_set: "ret_Equal_loop r fs = (r \<in> set fs)"
  by (induction fs) auto

lemma ret_NotEqual_loop_set: "ret_NotEqual_loop r fs = (r \<in> set fs)"
  by (induction fs) auto

lemma retFilter_pass_both_bounds:
  assumes "Greater flt \<noteq> GreaterNotSetInt k" and "Less flt \<noteq> LessNotSetInt k"
  shows "retFilter_pass k flt r =
     (Greater flt < r \<and> r < Less flt \<and> r \<notin> set (ret_NotEqual flt) \<and>
      (ret_Equal flt = [] \<or> r \<in> set (ret_Equal flt)))"
  using assms
  by (auto simp: retFilter_pass_def Let_def ret_Equal_loop_set ret_NotEqual_loop_set)

text \<open>
  C3, as the code has it. For an event whose type has a return-value filter
  (return-value filtering is on and the table has an entry for the event's type) with
  both bounds set (each differs from its sentinel), shouldProcessEvent returns true if
  and only if the return value lies strictly between the bounds, is not in the reject
  list, the accept list is empty or contains it, and the argument filters do not drop
  the event (argument filtering is off, or its loop ends without a return). When the
  condition on the return value fails, the answer is false.
\<close>

theorem C3_ret_filter_both_bounds:
  assumes "RetFilter_Enabled (config t)"
    and "RetFilter_Filters (config t) (EventID ctx) = Some flt"
    and "Greater flt \<noteq> GreaterNotSetInt k"
    and "Less flt \<noteq> LessNotSetInt k"
  shows "(shouldProcessEvent k t ctx args = Some True) =
           (Greater flt < Retval ctx \<and> Retval ctx < Less flt \<and>
            Retval ctx \<notin> set (ret_NotEqual flt) \<and>
            (ret_Equal flt = [] \<or> Retval ctx \<in> set (ret_Equal flt)) \<and>
            (ArgFilter_Enabled (config t) \<longrightarrow>
               argFilters_loop args (ArgFilter_Filters (config t) (EventID ctx)) = Some True)) \<and>
         (\<not> (Greater flt < Retval ctx \<and> Retval ctx < Less flt \<and>
             Retval ctx \<notin> set (ret_NotEqual flt) \<and>
             (ret_Equal flt = [] \<or> Retval ctx \<in> set (ret_Equal flt))) \<longrightarrow>
            shouldProcessEvent k t ctx args = Some False)"
proof -
  have pass: "retFilter_pass k flt (Retval ctx) =
     (Greater flt < Retval ctx \<and> Retval ctx < Less flt \<and>
      Retval ctx \<notin> set (ret_NotEqual flt) \<and>
      (ret_Equal flt = [] \<or> Retval ctx \<in> set (ret_Equal flt)))"
    using assms(3,4) by (rule retFilter_pass_both_bounds)
  have dropped: "shouldProcessEvent k t ctx args = Some False"
    if "\<not> retFilter_pass k flt (Retval ctx)"
    using that assms(1,2) by (simp add: shouldProcessEvent_def)
  have passed: "shouldProcessEvent k t ctx args =
      (if ArgFilter_Enabled (config t)
       then argFilters_loop args (ArgFilter_Filters (config t) (EventID ctx)) else Some True)"
    if "retFilter_pass k flt (Retval ctx)"
    using that assms(1,2) by (simp add: shouldProcessEvent_def)
  show ?thesis
  proof (cases "retFilter_pass k flt (Retval ctx)")
    case True
    from passed [OF True] True show ?thesis unfolding pass by auto
  next
    case False
    from dropped [OF False] False show ?thesis unfolding pass by auto
  qed
qed

theorem C3_witness:
  "shouldProcessEvent ref_sentinels
     (ref_tracee (ref_config\<lparr>RetFilter_Enabled := True,
        RetFilter_Filters := [OtherEventID 3 \<mapsto>
          \<lparr>ret_Equal = [], ret_NotEqual = [7], Greater = 0, Less = 10\<rparr>]\<rparr>))
     ((ref_ctx (OtherEventID 3))\<lparr>Retval := 5\<rparr>) Map.empty = Some True \<and>
   shouldProcessEvent ref_sentinels
     (ref_tracee (ref_config\<lparr>RetFilter_Enabled := True,
        RetFilter_Filters := [OtherEventID 3 \<mapsto>
          \<lparr>ret_Equal = [], ret_NotEqual = [7], Greater = 0, Less = 10\<rparr>]\<rparr>))
     ((ref_ctx (OtherEventID 3))\<lparr>Retval := 10\<rparr>) Map.empty = Some False"
proof -
  let ?flt = "\<lparr>ret_Equal = [], ret_NotEqual = [7], Greater = 0, Less = 10\<rparr>"
  let ?t = "ref_tracee (ref_config\<lparr>RetFilter_Enabled := True,
        RetFilter_Filters := [OtherEventID 3 \<mapsto> ?flt]\<rparr>)"
  have h1: "RetFilter_Enabled (config ?t)"
    by (simp add: ref_tracee_def ref_config_def)
  have h2: "RetFilter_Filters (config ?t) (EventID ((ref_ctx (OtherEventID 3))\<lparr>Retval := r\<rparr>))
      = Some ?flt" for r
    by (simp add: ref_tracee_def ref_config_def ref_ctx_def)
  have h3: "Greater ?flt \<noteq> GreaterNotSetInt ref_sentinels"
    by (simp add: ref_sentinels_def)
  have h4: "Less ?flt \<noteq> LessNotSetInt ref_sentinels"
    by (simp add: ref_sentinels_def)
  have off: "\<not> ArgFilter_Enabled (config ?t)"
    by (simp add: ref_tracee_def ref_config_def)
  show ?thesis
    using C3_ret_filter_both_bounds [OF h1 h2 h3 h4, of 5 Map.empty]
      C3_ret_filter_both_bounds [OF h1 h2 h3 h4, of 10 Map.empty] off
    by (simp add: ref_ctx_def)
qed

text \<open>
  The claim as stated makes the condition on the return value sufficient. Below, the
  return value 5 lies between the bounds 0 and 10 and is not rejected, and the accept
  list is empty; the argument filter of the event's type accepts only pathnames under
  /etc and the pathname is /bin/ls: shouldProcessEvent returns false.
\<close>

theorem C3_counterexample:
  "Greater \<lparr>ret_Equal = [], ret_NotEqual = [7], Greater = 0, Less = 10\<rparr> < (5::int) \<and>
   (5::int) < Less \<lparr>ret_Equal = [], ret_NotEqual = [7], Greater = 0, Less = 10\<rparr> \<and>
   (5::int) \<notin> set (ret_NotEqual \<lparr>ret_Equal = [], ret_NotEqual = [7], Greater = 0, Less = 10\<rparr>) \<and>
   ret_Equal \<lparr>ret_Equal = [], ret_NotEqual = [7], Greater = 0, Less = 10\<rparr> = [] \<and>
   shouldProcessEvent ref_sentinels
     (ref_tracee (ref_config\<lparr>RetFilter_Enabled := True,
        RetFilter_Filters := [OtherEventID 3 \<mapsto>
          \<lparr>ret_Equal = [], ret_NotEqual = [7], Greater = 0, Less = 10\<rparr>],
        ArgFilter_Enabled := True,
        ArgFilter_Filters := (\<lambda>ev. [(''pathname'', \<lparr>arg_Equal = [''/etc/*''], arg_NotEqual = []\<rparr>)])\<rparr>))
     ((ref_ctx (OtherEventID 3))\<lparr>Retval := 5\<rparr>)
     [''pathname'' \<mapsto> VString ''/bin/ls''] = Some False"
  by (simp add: shouldProcessEvent_def retFilter_pass_def ref_tracee_def ref_config_def
      ref_ctx_def ref_sentinels_def pattern_test_def)

section \<open>The argument filters\<close>

lemma argFilters_loop_skip:
  assumes "args argName = None"
  shows "argFilters_loop args (xs @ (argName, flt) # ys) = argFilters_loop args (xs @ ys)"
proof (induction xs)
  case Nil
  show ?case using assms by simp
next
  case (Cons x xs)
  obtain n g where x: "x = (n, g)" by (cases x)
  show ?case unfolding x using Cons.IH
    by (simp add: Let_def split: option.splits bool.splits)
qed

lemma pattern_test_total: "f \<noteq> [] \<Longrightarrow> \<exists>d. pattern_test v f = Some d"
  by (auto simp: pattern_test_def)

lemma arg_Equal_loop_total: "[] \<notin> set fs \<Longrightarrow> \<exists>d. arg_Equal_loop v fs = Some d"
proof (induction fs)
  case Nil
  show ?case by auto
next
  case (Cons f fs)
  then have "f \<noteq> []" by auto
  then obtain d where d: "pattern_test v f = Some d"
    using pattern_test_total by blast
  from Cons obtain d' where "arg_Equal_loop v fs = Some d'" by auto
  with d show ?case by (cases d) auto
qed

lemma arg_NotEqual_loop_total: "[] \<notin> set fs \<Longrightarrow> \<exists>d. arg_NotEqual_loop v fs = Some d"
proof (induction fs)
  case Nil
  show ?case by auto
next
  case (Cons f fs)
  then have "f \<noteq> []" by auto
  then obtain d where d: "pattern_test v f = Some d"
    using pattern_test_total by blast
  from Cons obtain d' where "arg_NotEqual_loop v fs = Some d'" by auto
  with d show ?case by (cases d) auto
qed

lemma argFilters_loop_total:
  assumes "\<forall>(n, flt) \<in> set fl. [] \<notin> set (arg_Equal flt) \<and> [] \<notin> set (arg_NotEqual flt)"
  shows "\<exists>d. argFilters_loop args fl = Some d"
  using assms
proof (induction fl)
  case Nil
  show ?case by auto
next
  case (Cons x fl)
  obtain n g where x: "x = (n, g)" by (cases x)
  from Cons.prems x have g: "[] \<notin> set (arg_Equal g)" "[] \<notin> set (arg_NotEqual g)"
    by auto
  from Cons obtain d where IH: "argFilters_loop args fl = Some d" by auto
  show ?case
  proof (cases "args n")
    case None
    with IH x show ?thesis by auto
  next
    case (Some a)
    from g(1) obtain m where m: "arg_Equal_loop (Sprint a) (arg_Equal g) = Some m"
      using arg_Equal_loop_total by blast
    from g(2) obtain r where r: "arg_NotEqual_loop (Sprint a) (arg_NotEqual g) = Some r"
      using arg_NotEqual_loop_total by blast
    show ?thesis using IH x Some m r by (cases r) (auto simp: Let_def)
  qed
qed

lemma shouldProcessEvent_total:
  assumes "\<forall>(n, flt) \<in> set (ArgFilter_Filters (config t) (EventID ctx)).
             [] \<notin> set (arg_Equal flt) \<and> [] \<notin> set (arg_NotEqual flt)"
  shows "\<exists>d. shouldProcessEvent k t ctx args = Some d"
  using argFilters_loop_total [OF assms, of args]
  by (auto simp: shouldProcessEvent_def)

lemma pattern_test_None: "(pattern_test v f = None) = (f = [] \<and> v \<noteq> [])"
  by (auto simp: pattern_test_def)

lemma pattern_test_spec:
  "pattern_test v f = (if f = [] \<and> v \<noteq> [] then None else Some (spec_matches v f))"
proof (cases "v = f")
  case True
  have "prefix (butlast f) (butlast f @ [last f])" by simp
  then have "f \<noteq> [] \<Longrightarrow> prefix (butlast f) f" by simp
  with True show ?thesis by (auto simp: pattern_test_def spec_matches_def)
next
  case False
  then show ?thesis by (auto simp: pattern_test_def spec_matches_def)
qed

lemma spec_matches_empty: "spec_matches v [] = (v = [])"
  by (simp add: spec_matches_def)

lemma arg_Equal_loop_spec:
  "arg_Equal_loop v fs =
     (if v \<noteq> [] \<and> empty_pattern_reached v fs then None
      else Some (list_ex (spec_matches v) fs))"
proof (induction fs)
  case Nil
  show ?case by (simp add: empty_pattern_reached_def)
next
  case (Cons f fs)
  show ?case
  proof (cases "f = []")
    case True
    then show ?thesis
      by (cases "v = []") (simp_all add: pattern_test_spec empty_pattern_reached_def spec_matches_empty)
  next
    case False
    then have r: "empty_pattern_reached v (f # fs) =
        (\<not> spec_matches v f \<and> empty_pattern_reached v fs)"
      by (auto simp: empty_pattern_reached_def)
    show ?thesis
      using False Cons.IH by (cases "spec_matches v f") (simp_all add: pattern_test_spec r)
  qed
qed

lemma arg_NotEqual_loop_spec:
  "arg_NotEqual_loop v fs =
     (if v \<noteq> [] \<and> empty_pattern_reached v fs then None
      else Some (list_ex (spec_matches v) fs))"
proof (induction fs)
  case Nil
  show ?case by (simp add: empty_pattern_reached_def)
next
  case (Cons f fs)
  show ?case
  proof (cases "f = []")
    case True
    then show ?thesis
      by (cases "v = []") (simp_all add: pattern_test_spec empty_pattern_reached_def spec_matches_empty)
  next
    case False
    then have r: "empty_pattern_reached v (f # fs) =
        (\<not> spec_matches v f \<and> empty_pattern_reached v fs)"
      by (auto simp: empty_pattern_reached_def)
    show ?thesis
      using False Cons.IH by (cases "spec_matches v f") (simp_all add: pattern_test_spec r)
  qed
qed

lemma argFilters_loop_entry:
  assumes "args n = Some a"
  shows "argFilters_loop args ((n, g) # rest) =
     (if spec_entry_aborts (Sprint a) g then None
      else if spec_entry_pass args (n, g) then argFilters_loop args rest
      else Some False)"
  using assms
  by (auto simp: Let_def arg_Equal_loop_spec arg_NotEqual_loop_spec spec_entry_aborts_def
      spec_entry_pass_def)

lemma argFilters_loop_absent:
  assumes "args n = None"
  shows "argFilters_loop args ((n, g) # rest) = argFilters_loop args rest"
    and "spec_entry_pass args (n, g)"
  using assms by (simp_all add: spec_entry_pass_def)

lemma argFilters_loop_decision:
  "argFilters_loop args table = Some d \<Longrightarrow> d = spec_arg_filters args table"
proof (induction table)
  case Nil
  then show ?case by (simp add: spec_arg_filters_def)
next
  case (Cons x table)
  obtain n g where x: "x = (n, g)" by (cases x)
  show ?case
  proof (cases "args n")
    case None
    with Cons x show ?thesis
      by (simp add: argFilters_loop_absent spec_arg_filters_def del: argFilters_loop.simps)
  next
    case (Some a)
    note e = argFilters_loop_entry [of args n a g table, OF Some]
    from Cons.prems show ?thesis
      unfolding x e using Cons.IH
      by (auto simp: spec_arg_filters_def split: if_splits)
  qed
qed

lemma argFilters_loop_append:
  "argFilters_loop args (pre @ xs) =
     (if argFilters_loop args pre = Some True then argFilters_loop args xs
      else argFilters_loop args pre)"
proof (induction pre)
  case Nil
  show ?case by simp
next
  case (Cons x pre)
  obtain n g where x: "x = (n, g)" by (cases x)
  show ?case
  proof (cases "args n")
    case None
    then show ?thesis unfolding x using Cons.IH by simp
  next
    case (Some a)
    show ?thesis
      using Cons.IH argFilters_loop_entry [of args n a g "pre @ xs", OF Some]
        argFilters_loop_entry [of args n a g pre, OF Some]
      unfolding x append_Cons by simp
  qed
qed

lemma argFilters_loop_abort:
  "(argFilters_loop args table = None) =
     (\<exists>pre n g rest a. table = pre @ (n, g) # rest \<and> argFilters_loop args pre = Some True \<and>
        args n = Some a \<and> spec_entry_aborts (Sprint a) g)"
proof
  assume "\<exists>pre n g rest a. table = pre @ (n, g) # rest \<and> argFilters_loop args pre = Some True \<and>
        args n = Some a \<and> spec_entry_aborts (Sprint a) g"
  then obtain pre n g rest a where t: "table = pre @ (n, g) # rest"
    and p: "argFilters_loop args pre = Some True" and a: "args n = Some a"
    and ab: "spec_entry_aborts (Sprint a) g"
    by blast
  show "argFilters_loop args table = None"
    unfolding t argFilters_loop_append using p ab argFilters_loop_entry [of args n a g rest, OF a]
    by simp
next
  assume "argFilters_loop args table = None"
  then show "\<exists>pre n g rest a. table = pre @ (n, g) # rest \<and> argFilters_loop args pre = Some True \<and>
        args n = Some a \<and> spec_entry_aborts (Sprint a) g"
  proof (induction table)
    case Nil
    then show ?case by simp
  next
    case (Cons x table)
    obtain n g where x: "x = (n, g)" by (cases x)
    show ?case
    proof (cases "args n")
      case None
      with Cons.prems x have "argFilters_loop args table = None" by simp
      from Cons.IH [OF this] obtain pre n' g' rest a where
        t: "table = pre @ (n', g') # rest" and p: "argFilters_loop args pre = Some True"
        and a: "args n' = Some a" and ab: "spec_entry_aborts (Sprint a) g'"
        by blast
      have "x # table = (x # pre) @ (n', g') # rest" using t by simp
      moreover have "argFilters_loop args (x # pre) = Some True"
        unfolding x using None p by simp
      ultimately show ?thesis using a ab by blast
    next
      case (Some a)
      note e = argFilters_loop_entry [of args n a g, OF Some]
      show ?thesis
      proof (cases "spec_entry_aborts (Sprint a) g")
        case True
        have "x # table = [] @ (n, g) # table" using x by simp
        moreover have "argFilters_loop args [] = Some True" by simp
        ultimately show ?thesis using Some True by blast
      next
        case False
        with Cons.prems have pass: "spec_entry_pass args (n, g)"
          and r: "argFilters_loop args table = None"
          unfolding x e by (simp_all split: if_splits)
        from Cons.IH [OF r] obtain pre n' g' rest a' where
          t: "table = pre @ (n', g') # rest" and p: "argFilters_loop args pre = Some True"
          and a: "args n' = Some a'" and ab: "spec_entry_aborts (Sprint a') g'"
          by blast
        have "x # table = (x # pre) @ (n', g') # rest" using t by simp
        moreover have "argFilters_loop args (x # pre) = Some True"
          unfolding x e using False pass p by simp
        ultimately show ?thesis using a ab by blast
      qed
    qed
  qed
qed

lemma shouldProcessEvent_stages:
  "shouldProcessEvent k t ctx args =
     (if retFilter_drops k t ctx then Some False
      else if ArgFilter_Enabled (config t)
      then argFilters_loop args (ArgFilter_Filters (config t) (EventID ctx))
      else Some True)"
  by (simp add: shouldProcessEvent_def retFilter_drops_def)

lemma shouldProcessEvent_decision:
  assumes "shouldProcessEvent k t ctx args = Some d"
  shows "d = (\<not> retFilter_drops k t ctx \<and>
              (ArgFilter_Enabled (config t) \<longrightarrow>
                 spec_arg_filters args (ArgFilter_Filters (config t) (EventID ctx))))"
proof (cases "retFilter_drops k t ctx")
  case True
  with assms show ?thesis by (simp add: shouldProcessEvent_stages)
next
  case False
  show ?thesis
  proof (cases "ArgFilter_Enabled (config t)")
    case True
    with False assms have "argFilters_loop args (ArgFilter_Filters (config t) (EventID ctx)) = Some d"
      by (simp add: shouldProcessEvent_stages)
    from argFilters_loop_decision [OF this] show ?thesis using False True by simp
  next
    case n: False
    with False assms show ?thesis by (simp add: shouldProcessEvent_stages)
  qed
qed

lemma shouldProcessEvent_skip:
  assumes "ArgFilter_Filters (config t) (EventID ctx) = xs @ (argName, flt) # ys"
    and "args argName = None"
  shows "shouldProcessEvent k
           (t\<lparr>config := (config t)\<lparr>ArgFilter_Filters :=
                (ArgFilter_Filters (config t))(EventID ctx := xs @ ys)\<rparr>\<rparr>) ctx args =
         shouldProcessEvent k t ctx args"
  using assms argFilters_loop_skip [of args argName xs flt ys, OF assms(2)]
  by (simp add: shouldProcessEvent_def)

text \<open>The definitions that the evaluation of a filter on a reference event unfolds.\<close>

lemmas filter_eval =
  ref_tracee_def ref_config_def ref_ctx_def ref_sentinels_def
  retFilter_drops_def retFilter_pass_def spec_arg_filters_def spec_entry_pass_def
  spec_matches_def spec_entry_aborts_def empty_pattern_reached_def FormatUint.simps

lemma shouldProcessEvent_result:
  "shouldProcessEvent k t ctx args =
     (if \<not> retFilter_drops k t ctx \<and> ArgFilter_Enabled (config t) \<and>
         (\<exists>pre n g rest a.
             ArgFilter_Filters (config t) (EventID ctx) = pre @ (n, g) # rest \<and>
             argFilters_loop args pre = Some True \<and>
             args n = Some a \<and> spec_entry_aborts (Sprint a) g)
      then None
      else Some (\<not> retFilter_drops k t ctx \<and>
                 (ArgFilter_Enabled (config t) \<longrightarrow>
                    spec_arg_filters args (ArgFilter_Filters (config t) (EventID ctx)))))"
proof (cases "shouldProcessEvent k t ctx args")
  case None
  then have "\<not> retFilter_drops k t ctx \<and> ArgFilter_Enabled (config t) \<and>
      argFilters_loop args (ArgFilter_Filters (config t) (EventID ctx)) = None"
    by (simp add: shouldProcessEvent_stages split: if_splits)
  then show ?thesis
    unfolding None
    using argFilters_loop_abort [of args "ArgFilter_Filters (config t) (EventID ctx)"]
    by simp
next
  case (Some d)
  have "\<not> (\<not> retFilter_drops k t ctx \<and> ArgFilter_Enabled (config t) \<and>
      argFilters_loop args (ArgFilter_Filters (config t) (EventID ctx)) = None)"
    using Some by (auto simp: shouldProcessEvent_stages)
  then have n: "\<not> (\<not> retFilter_drops k t ctx \<and> ArgFilter_Enabled (config t) \<and>
         (\<exists>pre n g rest a.
             ArgFilter_Filters (config t) (EventID ctx) = pre @ (n, g) # rest \<and>
             argFilters_loop args pre = Some True \<and>
             args n = Some a \<and> spec_entry_aborts (Sprint a) g))"
    using argFilters_loop_abort [of args "ArgFilter_Filters (config t) (EventID ctx)"]
    by simp
  show ?thesis
    unfolding Some using n shouldProcessEvent_decision [OF Some] by simp
qed

text \<open>
  C4. The result of shouldProcessEvent is the decision of the specification, on every
  input on which the tests do not reach an empty pattern with a text that is not empty
  (there the index of the last character panics): the event passes if and only if the
  return-value filter does not drop it and, when argument filtering is on, it passes
  every entry of the table of its type, where a pattern that ends in the wildcard
  marker matches the argument texts that have the pattern without its marker as a
  prefix, any other pattern matches only the text equal to it, and an entry whose
  argument name the event's argument map does not hold is passed. In particular the
  decision is returned when no configured pattern is the empty string. An entry whose
  argument name the argument map does not hold can be taken out of the table, wherever
  it stands, and the result is the same.
\<close>

theorem C4_arg_patterns:
  "shouldProcessEvent k t ctx args =
     (if \<not> retFilter_drops k t ctx \<and> ArgFilter_Enabled (config t) \<and>
         (\<exists>pre n g rest a.
             ArgFilter_Filters (config t) (EventID ctx) = pre @ (n, g) # rest \<and>
             argFilters_loop args pre = Some True \<and>
             args n = Some a \<and> spec_entry_aborts (Sprint a) g)
      then None
      else Some (\<not> retFilter_drops k t ctx \<and>
                 (ArgFilter_Enabled (config t) \<longrightarrow>
                    spec_arg_filters args (ArgFilter_Filters (config t) (EventID ctx))))) \<and>
   ((\<forall>(n, g) \<in> set (ArgFilter_Filters (config t) (EventID ctx)).
        [] \<notin> set (arg_Equal g) \<and> [] \<notin> set (arg_NotEqual g)) \<longrightarrow>
      shouldProcessEvent k t ctx args =
        Some (\<not> retFilter_drops k t ctx \<and>
              (ArgFilter_Enabled (config t) \<longrightarrow>
                 spec_arg_filters args (ArgFilter_Filters (config t) (EventID ctx))))) \<and>
   (ArgFilter_Filters (config t) (EventID ctx) = xs @ (argName, flt) # ys \<and>
    args argName = None \<longrightarrow>
      shouldProcessEvent k
        (t\<lparr>config := (config t)\<lparr>ArgFilter_Filters :=
             (ArgFilter_Filters (config t))(EventID ctx := xs @ ys)\<rparr>\<rparr>) ctx args =
      shouldProcessEvent k t ctx args)"
proof (intro conjI impI)
  show "shouldProcessEvent k t ctx args =
     (if \<not> retFilter_drops k t ctx \<and> ArgFilter_Enabled (config t) \<and>
         (\<exists>pre n g rest a.
             ArgFilter_Filters (config t) (EventID ctx) = pre @ (n, g) # rest \<and>
             argFilters_loop args pre = Some True \<and>
             args n = Some a \<and> spec_entry_aborts (Sprint a) g)
      then None
      else Some (\<not> retFilter_drops k t ctx \<and>
                 (ArgFilter_Enabled (config t) \<longrightarrow>
                    spec_arg_filters args (ArgFilter_Filters (config t) (EventID ctx)))))"
    by (rule shouldProcessEvent_result)
next
  assume "\<forall>(n, g) \<in> set (ArgFilter_Filters (config t) (EventID ctx)).
        [] \<notin> set (arg_Equal g) \<and> [] \<notin> set (arg_NotEqual g)"
  then obtain d where d: "shouldProcessEvent k t ctx args = Some d"
    using shouldProcessEvent_total [of t ctx k args] by blast
  from shouldProcessEvent_decision [OF d] d
  show "shouldProcessEvent k t ctx args =
        Some (\<not> retFilter_drops k t ctx \<and>
              (ArgFilter_Enabled (config t) \<longrightarrow>
                 spec_arg_filters args (ArgFilter_Filters (config t) (EventID ctx))))"
    by simp
next
  assume "ArgFilter_Filters (config t) (EventID ctx) = xs @ (argName, flt) # ys \<and>
    args argName = None"
  then show "shouldProcessEvent k
        (t\<lparr>config := (config t)\<lparr>ArgFilter_Filters :=
             (ArgFilter_Filters (config t))(EventID ctx := xs @ ys)\<rparr>\<rparr>) ctx args =
      shouldProcessEvent k t ctx args"
    using shouldProcessEvent_skip by blast
qed

theorem C4_witness:
  "shouldProcessEvent ref_sentinels
     (ref_tracee (ref_config\<lparr>ArgFilter_Enabled := True,
        ArgFilter_Filters := (\<lambda>ev. [(''pathname'', \<lparr>arg_Equal = [''foo*''], arg_NotEqual = []\<rparr>)])\<rparr>))
     (ref_ctx SchedProcessExecEventID) [''pathname'' \<mapsto> VString ''foobar''] = Some True \<and>
   shouldProcessEvent ref_sentinels
     (ref_tracee (ref_config\<lparr>ArgFilter_Enabled := True,
        ArgFilter_Filters := (\<lambda>ev. [(''pathname'', \<lparr>arg_Equal = [''foo*''], arg_NotEqual = []\<rparr>)])\<rparr>))
     (ref_ctx SchedProcessExecEventID) [''pathname'' \<mapsto> VString ''bar''] = Some False \<and>
   shouldProcessEvent ref_sentinels
     (ref_tracee (ref_config\<lparr>ArgFilter_Enabled := True,
        ArgFilter_Filters := (\<lambda>ev. [(''pathname'', \<lparr>arg_Equal = [''foo''], arg_NotEqual = []\<rparr>)])\<rparr>))
     (ref_ctx SchedProcessExecEventID) [''pathname'' \<mapsto> VString ''foo''] = Some True \<and>
   shouldProcessEvent ref_sentinels
     (ref_tracee (ref_config\<lparr>ArgFilter_Enabled := True,
        ArgFilter_Filters := (\<lambda>ev. [(''pathname'', \<lparr>arg_Equal = [''foo''], arg_NotEqual = []\<rparr>)])\<rparr>))
     (ref_ctx SchedProcessExecEventID) [''pathname'' \<mapsto> VString ''foobar''] = Some False \<and>
   shouldProcessEvent ref_sentinels
     (ref_tracee (ref_config\<lparr>ArgFilter_Enabled := True,
        ArgFilter_Filters := (\<lambda>ev. [(''pathname'', \<lparr>arg_Equal = [], arg_NotEqual = [''/tmp/*'']\<rparr>)])\<rparr>))
     (ref_ctx SchedProcessExecEventID) [''pathname'' \<mapsto> VString ''/tmp/x''] = Some False \<and>
   shouldProcessEvent ref_sentinels
     (ref_tracee (ref_config\<lparr>ArgFilter_Enabled := True,
        ArgFilter_Filters := (\<lambda>ev. [(''pathname'', \<lparr>arg_Equal = [''/etc/*''], arg_NotEqual = []\<rparr>),
                                    (''dev'', \<lparr>arg_Equal = [''8''], arg_NotEqual = []\<rparr>)])\<rparr>))
     (ref_ctx SchedProcessExecEventID) [''dev'' \<mapsto> VUint32 8] = Some True \<and>
   shouldProcessEvent ref_sentinels
     (ref_tracee (ref_config\<lparr>ArgFilter_Enabled := True,
        ArgFilter_Filters := (\<lambda>ev. [(''pathname'', \<lparr>arg_Equal = [''/etc/*''], arg_NotEqual = []\<rparr>),
                                    (''dev'', \<lparr>arg_Equal = [''8''], arg_NotEqual = []\<rparr>)])\<rparr>))
     (ref_ctx SchedProcessExecEventID) [''dev'' \<mapsto> VUint32 8] =
   shouldProcessEvent ref_sentinels
     (ref_tracee (ref_config\<lparr>ArgFilter_Enabled := True,
        ArgFilter_Filters := (\<lambda>ev. [(''dev'', \<lparr>arg_Equal = [''8''], arg_NotEqual = []\<rparr>)])\<rparr>))
     (ref_ctx SchedProcessExecEventID) [''dev'' \<mapsto> VUint32 8]"
proof -
  let ?ctx = "ref_ctx SchedProcessExecEventID"
  let ?T = "\<lambda>table. ref_tracee (ref_config\<lparr>ArgFilter_Enabled := True,
        ArgFilter_Filters := (\<lambda>ev. table)\<rparr>)"
  let ?wild = "[(''pathname'', \<lparr>arg_Equal = [''foo*''], arg_NotEqual = []\<rparr>)]"
  let ?exact = "[(''pathname'', \<lparr>arg_Equal = [''foo''], arg_NotEqual = []\<rparr>)]"
  let ?reject = "[(''pathname'', \<lparr>arg_Equal = [], arg_NotEqual = [''/tmp/*'']\<rparr>)]"
  let ?dev = "[(''dev'', \<lparr>arg_Equal = [''8''], arg_NotEqual = []\<rparr>)]"
  let ?two = "(''pathname'', \<lparr>arg_Equal = [''/etc/*''], arg_NotEqual = []\<rparr>) # ?dev"
  have 1: "shouldProcessEvent ref_sentinels (?T ?wild) ?ctx [''pathname'' \<mapsto> VString ''foobar'']
      = Some True"
    using C4_arg_patterns [of ref_sentinels "?T ?wild" ?ctx "[''pathname'' \<mapsto> VString ''foobar'']",
        THEN conjunct2, THEN conjunct1]
    by (simp add: filter_eval)
  have 2: "shouldProcessEvent ref_sentinels (?T ?wild) ?ctx [''pathname'' \<mapsto> VString ''bar'']
      = Some False"
    using C4_arg_patterns [of ref_sentinels "?T ?wild" ?ctx "[''pathname'' \<mapsto> VString ''bar'']",
        THEN conjunct2, THEN conjunct1]
    by (simp add: filter_eval)
  have 3: "shouldProcessEvent ref_sentinels (?T ?exact) ?ctx [''pathname'' \<mapsto> VString ''foo'']
      = Some True"
    using C4_arg_patterns [of ref_sentinels "?T ?exact" ?ctx "[''pathname'' \<mapsto> VString ''foo'']",
        THEN conjunct2, THEN conjunct1]
    by (simp add: filter_eval)
  have 4: "shouldProcessEvent ref_sentinels (?T ?exact) ?ctx [''pathname'' \<mapsto> VString ''foobar'']
      = Some False"
    using C4_arg_patterns [of ref_sentinels "?T ?exact" ?ctx "[''pathname'' \<mapsto> VString ''foobar'']",
        THEN conjunct2, THEN conjunct1]
    by (simp add: filter_eval)
  have 5: "shouldProcessEvent ref_sentinels (?T ?reject) ?ctx [''pathname'' \<mapsto> VString ''/tmp/x'']
      = Some False"
    using C4_arg_patterns [of ref_sentinels "?T ?reject" ?ctx "[''pathname'' \<mapsto> VString ''/tmp/x'']",
        THEN conjunct2, THEN conjunct1]
    by (simp add: filter_eval)
  have 6: "shouldProcessEvent ref_sentinels (?T ?two) ?ctx [''dev'' \<mapsto> VUint32 8] = Some True"
    using C4_arg_patterns [of ref_sentinels "?T ?two" ?ctx "[''dev'' \<mapsto> VUint32 8]",
        THEN conjunct2, THEN conjunct1]
    by (simp add: filter_eval)
  have u: "(?T ?two)\<lparr>config := (config (?T ?two))\<lparr>ArgFilter_Filters :=
        (ArgFilter_Filters (config (?T ?two)))(EventID ?ctx := [] @ ?dev)\<rparr>\<rparr> =
      ref_tracee (ref_config\<lparr>ArgFilter_Enabled := True,
        ArgFilter_Filters := (\<lambda>ev. ?two)(SchedProcessExecEventID := ?dev)\<rparr>)"
    by (simp add: ref_tracee_def ref_config_def ref_ctx_def)
  have same: "shouldProcessEvent ref_sentinels
      (ref_tracee (ref_config\<lparr>ArgFilter_Enabled := True,
        ArgFilter_Filters := (\<lambda>ev. ?two)(SchedProcessExecEventID := ?dev)\<rparr>)) ?ctx args =
     shouldProcessEvent ref_sentinels (?T ?dev) ?ctx args" for args
    by (simp add: shouldProcessEvent_def ref_tracee_def ref_config_def ref_ctx_def)
  have 7: "shouldProcessEvent ref_sentinels (?T ?dev) ?ctx [''dev'' \<mapsto> VUint32 8] =
      shouldProcessEvent ref_sentinels (?T ?two) ?ctx [''dev'' \<mapsto> VUint32 8]"
    using C4_arg_patterns [of ref_sentinels "?T ?two" ?ctx "[''dev'' \<mapsto> VUint32 8]"
        "[]" "''pathname''" "\<lparr>arg_Equal = [''/etc/*''], arg_NotEqual = []\<rparr>" ?dev,
        THEN conjunct2, THEN conjunct2]
    unfolding u same
    by (simp add: ref_tracee_def ref_config_def ref_ctx_def)
  show ?thesis using 1 2 3 4 5 6 7 by simp
qed

text \<open>
  C10, as the code has it. The evaluation of the argument filters returns a decision
  whenever no configured pattern is the empty string. The test of one pattern panics
  exactly when the pattern is empty and the argument text is not: it indexes the
  pattern at position -1, and only a text equal to the pattern ends the test before
  that. shouldProcessEvent panics (None) instead of returning a decision exactly when
  the return-value filter does not drop the event, argument filtering is on, and the
  loop over the table comes to an entry (the loop over the entries before it runs to
  its end) whose argument the event holds with a text that is not empty and whose
  tests reach the empty pattern: the accept list holds the empty pattern and no
  pattern before it matches the text, or the accept list is empty or holds a match and
  the reject list holds the empty pattern and no pattern before it matches the text.
\<close>

theorem C10_empty_pattern:
  "((\<forall>(n, flt) \<in> set (ArgFilter_Filters (config t) (EventID ctx)).
        [] \<notin> set (arg_Equal flt) \<and> [] \<notin> set (arg_NotEqual flt)) \<longrightarrow>
      (\<exists>d. shouldProcessEvent k t ctx args = Some d)) \<and>
   (pattern_test v f = None) = (f = [] \<and> v \<noteq> []) \<and>
   (shouldProcessEvent k t ctx args = None) =
     (\<not> retFilter_drops k t ctx \<and> ArgFilter_Enabled (config t) \<and>
      (\<exists>pre n g rest a.
          ArgFilter_Filters (config t) (EventID ctx) = pre @ (n, g) # rest \<and>
          argFilters_loop args pre = Some True \<and>
          args n = Some a \<and> spec_entry_aborts (Sprint a) g))"
proof (intro conjI impI)
  assume "\<forall>(n, flt) \<in> set (ArgFilter_Filters (config t) (EventID ctx)).
        [] \<notin> set (arg_Equal flt) \<and> [] \<notin> set (arg_NotEqual flt)"
  then show "\<exists>d. shouldProcessEvent k t ctx args = Some d"
    by (rule shouldProcessEvent_total)
next
  show "(pattern_test v f = None) = (f = [] \<and> v \<noteq> [])" by (rule pattern_test_None)
next
  show "(shouldProcessEvent k t ctx args = None) =
     (\<not> retFilter_drops k t ctx \<and> ArgFilter_Enabled (config t) \<and>
      (\<exists>pre n g rest a.
          ArgFilter_Filters (config t) (EventID ctx) = pre @ (n, g) # rest \<and>
          argFilters_loop args pre = Some True \<and>
          args n = Some a \<and> spec_entry_aborts (Sprint a) g))"
    unfolding shouldProcessEvent_stages
    using argFilters_loop_abort [of args "ArgFilter_Filters (config t) (EventID ctx)"]
    by simp
qed

theorem C10_witness:
  "shouldProcessEvent ref_sentinels
     (ref_tracee (ref_config\<lparr>RetFilter_Enabled := True,
        RetFilter_Filters := [SchedProcessExecEventID \<mapsto>
          \<lparr>ret_Equal = [], ret_NotEqual = [7], Greater = - 1, Less = 10\<rparr>],
        ArgFilter_Enabled := True,
        ArgFilter_Filters := (\<lambda>ev. [(''dev'', \<lparr>arg_Equal = [''8''], arg_NotEqual = []\<rparr>),
            (''pathname'', \<lparr>arg_Equal = [''/etc/*'', []], arg_NotEqual = []\<rparr>)])\<rparr>))
     (ref_ctx SchedProcessExecEventID)
     [''pathname'' \<mapsto> VString ''/bin/ls'', ''dev'' \<mapsto> VUint32 8] = None \<and>
   shouldProcessEvent ref_sentinels
     (ref_tracee (ref_config\<lparr>RetFilter_Enabled := True,
        RetFilter_Filters := [SchedProcessExecEventID \<mapsto>
          \<lparr>ret_Equal = [], ret_NotEqual = [0], Greater = - 1, Less = 10\<rparr>],
        ArgFilter_Enabled := True,
        ArgFilter_Filters := (\<lambda>ev. [(''pathname'', \<lparr>arg_Equal = [[]], arg_NotEqual = []\<rparr>)])\<rparr>))
     (ref_ctx SchedProcessExecEventID) [''pathname'' \<mapsto> VString ''/bin/ls''] \<noteq> None \<and>
   shouldProcessEvent ref_sentinels
     (ref_tracee (ref_config\<lparr>ArgFilter_Enabled := True,
        ArgFilter_Filters := (\<lambda>ev. [(''pathname'', \<lparr>arg_Equal = [], arg_NotEqual = [[]]\<rparr>)])\<rparr>))
     (ref_ctx SchedProcessExecEventID) [''pathname'' \<mapsto> VString ''/bin/ls''] = None \<and>
   (\<exists>d. shouldProcessEvent ref_sentinels
     (ref_tracee (ref_config\<lparr>ArgFilter_Enabled := True,
        ArgFilter_Filters := (\<lambda>ev. [(''pathname'', \<lparr>arg_Equal = [''/bin/*''], arg_NotEqual = []\<rparr>)])\<rparr>))
     (ref_ctx SchedProcessExecEventID) [''pathname'' \<mapsto> VString ''/bin/ls''] = Some d)"
proof -
  let ?ctx = "ref_ctx SchedProcessExecEventID"
  let ?dev = "(''dev'', \<lparr>arg_Equal = [''8''], arg_NotEqual = []\<rparr>)"
  let ?g = "\<lparr>arg_Equal = [''/etc/*'', []], arg_NotEqual = []\<rparr>"
  let ?t1 = "ref_tracee (ref_config\<lparr>RetFilter_Enabled := True,
        RetFilter_Filters := [SchedProcessExecEventID \<mapsto>
          \<lparr>ret_Equal = [], ret_NotEqual = [7], Greater = - 1, Less = 10\<rparr>],
        ArgFilter_Enabled := True,
        ArgFilter_Filters := (\<lambda>ev. [?dev, (''pathname'', ?g)])\<rparr>)"
  let ?a1 = "[''pathname'' \<mapsto> VString ''/bin/ls'', ''dev'' \<mapsto> VUint32 8]"
  let ?t2 = "ref_tracee (ref_config\<lparr>RetFilter_Enabled := True,
        RetFilter_Filters := [SchedProcessExecEventID \<mapsto>
          \<lparr>ret_Equal = [], ret_NotEqual = [0], Greater = - 1, Less = 10\<rparr>],
        ArgFilter_Enabled := True,
        ArgFilter_Filters := (\<lambda>ev. [(''pathname'', \<lparr>arg_Equal = [[]], arg_NotEqual = []\<rparr>)])\<rparr>)"
  let ?g3 = "\<lparr>arg_Equal = [], arg_NotEqual = [[]]\<rparr>"
  let ?t3 = "ref_tracee (ref_config\<lparr>ArgFilter_Enabled := True,
        ArgFilter_Filters := (\<lambda>ev. [(''pathname'', ?g3)])\<rparr>)"
  let ?t4 = "ref_tracee (ref_config\<lparr>ArgFilter_Enabled := True,
        ArgFilter_Filters := (\<lambda>ev. [(''pathname'', \<lparr>arg_Equal = [''/bin/*''], arg_NotEqual = []\<rparr>)])\<rparr>)"
  let ?a = "[''pathname'' \<mapsto> VString ''/bin/ls'']"
  have "ArgFilter_Filters (config ?t1) (EventID ?ctx) = [?dev] @ (''pathname'', ?g) # [] \<and>
      argFilters_loop ?a1 [?dev] = Some True \<and>
      ?a1 ''pathname'' = Some (VString ''/bin/ls'') \<and>
      spec_entry_aborts (Sprint (VString ''/bin/ls'')) ?g"
    by (simp add: filter_eval pattern_test_def)
  then have e1: "\<exists>pre n g rest a.
      ArgFilter_Filters (config ?t1) (EventID ?ctx) = pre @ (n, g) # rest \<and>
      argFilters_loop ?a1 pre = Some True \<and> ?a1 n = Some a \<and> spec_entry_aborts (Sprint a) g"
    by blast
  have r1: "\<not> retFilter_drops ref_sentinels ?t1 ?ctx" "ArgFilter_Enabled (config ?t1)"
    by (simp_all add: filter_eval)
  have 1: "shouldProcessEvent ref_sentinels ?t1 ?ctx ?a1 = None"
    using C10_empty_pattern [of ?t1 ?ctx ref_sentinels ?a1 "''x''" "[]"] e1 r1 by blast
  have r2: "retFilter_drops ref_sentinels ?t2 ?ctx"
    by (simp add: filter_eval)
  have 2: "shouldProcessEvent ref_sentinels ?t2 ?ctx ?a \<noteq> None"
    using C10_empty_pattern [of ?t2 ?ctx ref_sentinels ?a "''x''" "[]"] r2 by blast
  have "ArgFilter_Filters (config ?t3) (EventID ?ctx) = [] @ (''pathname'', ?g3) # [] \<and>
      argFilters_loop ?a [] = Some True \<and>
      ?a ''pathname'' = Some (VString ''/bin/ls'') \<and>
      spec_entry_aborts (Sprint (VString ''/bin/ls'')) ?g3"
    by (simp add: filter_eval)
  then have e3: "\<exists>pre n g rest a.
      ArgFilter_Filters (config ?t3) (EventID ?ctx) = pre @ (n, g) # rest \<and>
      argFilters_loop ?a pre = Some True \<and> ?a n = Some a \<and> spec_entry_aborts (Sprint a) g"
    by blast
  have r3: "\<not> retFilter_drops ref_sentinels ?t3 ?ctx" "ArgFilter_Enabled (config ?t3)"
    by (simp_all add: filter_eval)
  have 3: "shouldProcessEvent ref_sentinels ?t3 ?ctx ?a = None"
    using C10_empty_pattern [of ?t3 ?ctx ref_sentinels ?a "''x''" "[]"] e3 r3 by blast
  have h4: "\<forall>(n, flt) \<in> set (ArgFilter_Filters (config ?t4) (EventID ?ctx)).
        [] \<notin> set (arg_Equal flt) \<and> [] \<notin> set (arg_NotEqual flt)"
    by (simp add: filter_eval)
  have 4: "\<exists>d. shouldProcessEvent ref_sentinels ?t4 ?ctx ?a = Some d"
    using C10_empty_pattern [of ?t4 ?ctx ref_sentinels ?a "''x''" "[]"] h4 by blast
  show ?thesis using 1 2 3 4 by simp
qed

text \<open>
  The claim as stated has the evaluation abort for every event that holds the named
  argument. Below, the accept list holds the empty pattern and the event holds the
  argument with the empty text: the comparison of the two ends the test and
  shouldProcessEvent returns true.
\<close>

theorem C10_counterexample:
  "[] \<in> set (arg_Equal \<lparr>arg_Equal = [[]], arg_NotEqual = []\<rparr>) \<and>
   shouldProcessEvent ref_sentinels
     (ref_tracee (ref_config\<lparr>ArgFilter_Enabled := True,
        ArgFilter_Filters := (\<lambda>ev. [(''pathname'', \<lparr>arg_Equal = [[]], arg_NotEqual = []\<rparr>)])\<rparr>))
     (ref_ctx SchedProcessExecEventID) [''pathname'' \<mapsto> VString []] = Some True"
  by (simp add: shouldProcessEvent_def ref_tracee_def ref_config_def pattern_test_def)

section \<open>Write events\<close>

lemma processEvent_write:
  assumes "EventID (st_ctx p) = VfsWriteEventID \<or> EventID (st_ctx p) = VfsWritevEventID"
  shows "processEvent e p = process_vfs_write p"
  using assms by (auto simp: processEvent_def)

lemma write_pathname_missing:
  assumes "Capture_FileWrite (config (st_tracee p))"
    and "assert_string (st_args p ''pathname'') = None"
  shows "process_vfs_write p = (Some (Errorf ''error parsing vfs_write args''), p)"
  using assms by (simp add: process_vfs_write_def Let_def)

lemma write_not_absolute:
  assumes "Capture_FileWrite (config (st_tracee p))"
    and "assert_string (st_args p ''pathname'') = Some fp"
    and "fp = [] \<or> hd fp \<noteq> CHR ''/''"
  shows "process_vfs_write p = (None, p)"
  using assms by (auto simp: process_vfs_write_def Let_def)

lemma write_dev_inode_missing:
  assumes "Capture_FileWrite (config (st_tracee p))"
    and "assert_string (st_args p ''pathname'') = Some fp"
    and "fp \<noteq> []" and "hd fp = CHR ''/''"
    and "assert_uint32 (st_args p ''dev'') = None \<or> assert_uint64 (st_args p ''inode'') = None"
  shows "process_vfs_write p = (Some (Errorf ''error parsing vfs_write args''), p)"
  using assms by (auto simp: process_vfs_write_def Let_def split: option.splits)

lemma write_indexed:
  assumes "Capture_FileWrite (config (st_tracee p))"
    and "assert_string (st_args p ''pathname'') = Some fp"
    and "fp \<noteq> []" and "hd fp = CHR ''/''"
    and "assert_uint32 (st_args p ''dev'') = Some dev"
    and "assert_uint64 (st_args p ''inode'') = Some inode"
  shows "process_vfs_write p =
     (None, p\<lparr>st_tracee := (st_tracee p)\<lparr>writtenFiles :=
        (writtenFiles (st_tracee p))
          (write_fileName (MntID (st_ctx p)) dev inode \<mapsto> fp)\<rparr>\<rparr>)"
  using assms by (auto simp: process_vfs_write_def Let_def fun_upd_idem)

text \<open>
  C8, as the code has it. For a write event with write-capture on: a pathname that is
  absent or not a string gives the parse error; a pathname that is a string and is
  empty or not absolute gives no error and the event is ignored, whatever dev and
  inode are, since this test comes before they are read; an absolute pathname with
  dev absent or not a uint32, or inode absent or not a uint64, gives the parse error.
  In all three cases nothing is written.
\<close>

theorem C8_write_args:
  assumes "EventID (st_ctx p) = VfsWriteEventID \<or> EventID (st_ctx p) = VfsWritevEventID"
    and "Capture_FileWrite (config (st_tracee p))"
  shows "(assert_string (st_args p ''pathname'') = None \<longrightarrow>
            processEvent e p = (Some (Errorf ''error parsing vfs_write args''), p)) \<and>
         (\<forall>fp. assert_string (st_args p ''pathname'') = Some fp \<and>
               (fp = [] \<or> hd fp \<noteq> CHR ''/'') \<longrightarrow>
            processEvent e p = (None, p)) \<and>
         (\<forall>fp. assert_string (st_args p ''pathname'') = Some fp \<and>
               fp \<noteq> [] \<and> hd fp = CHR ''/'' \<and>
               (assert_uint32 (st_args p ''dev'') = None \<or>
                assert_uint64 (st_args p ''inode'') = None) \<longrightarrow>
            processEvent e p = (Some (Errorf ''error parsing vfs_write args''), p))"
  unfolding processEvent_write [OF assms(1)]
  using write_pathname_missing [OF assms(2)] write_not_absolute [OF assms(2)]
    write_dev_inode_missing [OF assms(2)]
  by blast

theorem C8_witness:
  "processEvent (ref_env [])
      \<lparr>st_tracee = ref_tracee (ref_config\<lparr>Capture_FileWrite := True\<rparr>),
       st_ctx = ref_ctx VfsWriteEventID,
       st_args = [''pathname'' \<mapsto> VString ''/tmp/a'', ''inode'' \<mapsto> VUint64 100],
       st_argMetas = []\<rparr> =
    (Some (Errorf ''error parsing vfs_write args''),
      \<lparr>st_tracee = ref_tracee (ref_config\<lparr>Capture_FileWrite := True\<rparr>),
       st_ctx = ref_ctx VfsWriteEventID,
       st_args = [''pathname'' \<mapsto> VString ''/tmp/a'', ''inode'' \<mapsto> VUint64 100],
       st_argMetas = []\<rparr>)"
proof -
  let ?p = "\<lparr>st_tracee = ref_tracee (ref_config\<lparr>Capture_FileWrite := True\<rparr>),
       st_ctx = ref_ctx VfsWriteEventID,
       st_args = [''pathname'' \<mapsto> VString ''/tmp/a'', ''inode'' \<mapsto> VUint64 100],
       st_argMetas = []\<rparr>"
  have h1: "EventID (st_ctx ?p) = VfsWriteEventID \<or> EventID (st_ctx ?p) = VfsWritevEventID"
    by (simp add: ref_ctx_def)
  have h2: "Capture_FileWrite (config (st_tracee ?p))"
    by (simp add: ref_tracee_def ref_config_def)
  show ?thesis
    using C8_write_args [OF h1 h2, of "ref_env []"] by simp
qed

text \<open>
  The claim as stated gives a parse error whenever dev is absent. The event below has
  write-capture on, a pathname that is not absolute and no dev: processEvent returns
  no error.
\<close>

theorem C8_counterexample:
  "assert_uint32 ([''pathname'' \<mapsto> VString ''memfd:x'', ''inode'' \<mapsto> VUint64 100] ''dev'') = None \<and>
   fst (processEvent (ref_env [])
      \<lparr>st_tracee = ref_tracee (ref_config\<lparr>Capture_FileWrite := True\<rparr>),
       st_ctx = ref_ctx VfsWriteEventID,
       st_args = [''pathname'' \<mapsto> VString ''memfd:x'', ''inode'' \<mapsto> VUint64 100],
       st_argMetas = []\<rparr>) = None"
  by (simp add: processEvent_def process_vfs_write_def ref_ctx_def ref_tracee_def ref_config_def)

text \<open>
  C7, as the code has it. A write event with write-capture on, an absolute pathname, a
  dev of type uint32 and an inode of type uint64: the first call returns no error and
  leaves the index with the entry of this key set to the pathname (one entry more than
  before, or the same entries when the key was there); the second call with the same
  event returns no error and changes nothing.
\<close>

theorem C7_write_twice:
  assumes "EventID (st_ctx p) = VfsWriteEventID \<or> EventID (st_ctx p) = VfsWritevEventID"
    and "Capture_FileWrite (config (st_tracee p))"
    and "st_args p ''pathname'' = Some (VString fp)"
    and "fp \<noteq> []" and "hd fp = CHR ''/''"
    and "st_args p ''dev'' = Some (VUint32 dev)"
    and "st_args p ''inode'' = Some (VUint64 inode)"
  shows "processEvent e p =
           (None, p\<lparr>st_tracee := (st_tracee p)\<lparr>writtenFiles :=
              (writtenFiles (st_tracee p))
                (write_fileName (MntID (st_ctx p)) dev inode \<mapsto> fp)\<rparr>\<rparr>) \<and>
         processEvent e (snd (processEvent e p)) = (None, snd (processEvent e p)) \<and>
         dom (writtenFiles (st_tracee (snd (processEvent e p)))) =
           insert (write_fileName (MntID (st_ctx p)) dev inode)
             (dom (writtenFiles (st_tracee p)))"
proof -
  let ?key = "write_fileName (MntID (st_ctx p)) dev inode"
  let ?p1 = "p\<lparr>st_tracee := (st_tracee p)\<lparr>writtenFiles :=
                (writtenFiles (st_tracee p))(?key \<mapsto> fp)\<rparr>\<rparr>"
  have a: "assert_string (st_args p ''pathname'') = Some fp"
    "assert_uint32 (st_args p ''dev'') = Some dev"
    "assert_uint64 (st_args p ''inode'') = Some inode"
    using assms(3,6,7) by simp_all
  have first: "processEvent e p = (None, ?p1)"
    unfolding processEvent_write [OF assms(1)]
    using write_indexed [OF assms(2) a(1) assms(4,5) a(2,3)] .
  have ev1: "EventID (st_ctx ?p1) = VfsWriteEventID \<or> EventID (st_ctx ?p1) = VfsWritevEventID"
    using assms(1) by simp
  have second: "processEvent e ?p1 = (None, ?p1)"
    unfolding processEvent_write [OF ev1]
    using assms(2,4,5) a
    by (simp add: process_vfs_write_def Let_def)
  show ?thesis
    unfolding first using second by simp
qed

theorem C7_witness:
  "fst (processEvent (ref_env [])
      \<lparr>st_tracee = ref_tracee (ref_config\<lparr>Capture_FileWrite := True\<rparr>),
       st_ctx = ref_ctx VfsWriteEventID,
       st_args = [''pathname'' \<mapsto> VString ''/tmp/a'', ''dev'' \<mapsto> VUint32 8,
                  ''inode'' \<mapsto> VUint64 100],
       st_argMetas = []\<rparr>) = None \<and>
   dom (writtenFiles (st_tracee (snd (processEvent (ref_env [])
      \<lparr>st_tracee = ref_tracee (ref_config\<lparr>Capture_FileWrite := True\<rparr>),
       st_ctx = ref_ctx VfsWriteEventID,
       st_args = [''pathname'' \<mapsto> VString ''/tmp/a'', ''dev'' \<mapsto> VUint32 8,
                  ''inode'' \<mapsto> VUint64 100],
       st_argMetas = []\<rparr>)))) = {''5/write.dev-8.inode-100''}"
proof -
  let ?p = "\<lparr>st_tracee = ref_tracee (ref_config\<lparr>Capture_FileWrite := True\<rparr>),
       st_ctx = ref_ctx VfsWriteEventID,
       st_args = [''pathname'' \<mapsto> VString ''/tmp/a'', ''dev'' \<mapsto> VUint32 8,
                  ''inode'' \<mapsto> VUint64 100],
       st_argMetas = []\<rparr>"
  have h1: "EventID (st_ctx ?p) = VfsWriteEventID \<or> EventID (st_ctx ?p) = VfsWritevEventID"
    by (simp add: ref_ctx_def)
  have h2: "Capture_FileWrite (config (st_tracee ?p))"
    by (simp add: ref_tracee_def ref_config_def)
  have h3: "st_args ?p ''pathname'' = Some (VString ''/tmp/a'')" by simp
  have h4: "''/tmp/a'' \<noteq> []" by simp
  have h5: "hd ''/tmp/a'' = CHR ''/''" by simp
  have h6: "st_args ?p ''dev'' = Some (VUint32 8)" by simp
  have h7: "st_args ?p ''inode'' = Some (VUint64 100)" by simp
  have k: "write_fileName (MntID (st_ctx ?p)) 8 100 = ''5/write.dev-8.inode-100''"
    by (simp add: write_fileName_def ref_ctx_def FormatUint.simps)
  have d: "dom (writtenFiles (st_tracee ?p)) = {}"
    by (simp add: ref_tracee_def)
  note r = C7_write_twice [OF h1 h2 h3 h4 h5 h6 h7, of "ref_env []", unfolded k d]
  from r have f1: "fst (processEvent (ref_env []) ?p) = None" by simp
  from r have f2: "dom (writtenFiles (st_tracee (snd (processEvent (ref_env []) ?p)))) =
      {''5/write.dev-8.inode-100''}" by blast
  show ?thesis using f1 f2 by blast
qed

text \<open>
  The claim as stated covers every pathname. For a pathname that is not absolute the
  handler returns before it reads the index: after two calls with the pathname
  memfd:x the index is still empty.
\<close>

theorem C7_counterexample:
  "fst (processEvent (ref_env [])
      \<lparr>st_tracee = ref_tracee (ref_config\<lparr>Capture_FileWrite := True\<rparr>),
       st_ctx = ref_ctx VfsWriteEventID,
       st_args = [''pathname'' \<mapsto> VString ''memfd:x'', ''dev'' \<mapsto> VUint32 8,
                  ''inode'' \<mapsto> VUint64 100],
       st_argMetas = []\<rparr>) = None \<and>
   writtenFiles (st_tracee (snd (processEvent (ref_env [])
      (snd (processEvent (ref_env [])
        \<lparr>st_tracee = ref_tracee (ref_config\<lparr>Capture_FileWrite := True\<rparr>),
         st_ctx = ref_ctx VfsWriteEventID,
         st_args = [''pathname'' \<mapsto> VString ''memfd:x'', ''dev'' \<mapsto> VUint32 8,
                    ''inode'' \<mapsto> VUint64 100],
         st_argMetas = []\<rparr>))))) = Map.empty"
  by (simp add: processEvent_def process_vfs_write_def ref_ctx_def ref_tracee_def ref_config_def)

section \<open>Exec events\<close>

lemma updateProfile_frame:
  "config (updateProfile t k ts) = config t"
  "capturedFiles (updateProfile t k ts) = capturedFiles t"
  "copy_calls (updateProfile t k ts) = copy_calls t"
  "fileHashes (updateProfile t k ts) = fileHashes t"
  "pidsInMntns (updateProfile t k ts) = pidsInMntns t"
  "writtenFiles (updateProfile t k ts) = writtenFiles t"
  "removeSocketTailOnce (updateProfile t k ts) = removeSocketTailOnce t"
  "bpf_calls (updateProfile t k ts) = bpf_calls t"
  "output_files (updateProfile t k ts) = output_files t"
  by (simp_all add: updateProfile_def split: option.splits)

lemma capture_exec_frame:
  "config (snd (capture_exec e t ctx fp src c cid)) = config t"
  "fileHashes (snd (capture_exec e t ctx fp src c cid)) = fileHashes t"
  "pidsInMntns (snd (capture_exec e t ctx fp src c cid)) = pidsInMntns t"
  by (simp_all add: capture_exec_def Let_def updateProfile_frame
      split: option.splits prod.splits)

lemma capture_exec_skip:
  assumes "capturedFiles t cid = Some c"
  shows "copy_calls (snd (capture_exec e t ctx fp src c cid)) = copy_calls t"
    and "capturedFiles (snd (capture_exec e t ctx fp src c cid)) = capturedFiles t"
    and "output_files (snd (capture_exec e t ctx fp src c cid)) = output_files t"
  using assms
  by (simp_all add: capture_exec_def Let_def updateProfile_frame split: option.splits)

text \<open>A call of CopyFileByPath that returns no error has written the bytes of src to dst.\<close>

lemma CopyFileByPath_done:
  assumes "fst (CopyFileByPath e files src dst) = None"
  shows "snd (CopyFileByPath e files src dst) = files(dst \<mapsto> file_bytes e src)"
  using assms
  by (simp add: CopyFileByPath_def split: sum.splits option.splits if_splits)

lemma capture_exec_copy:
  assumes "capturedFiles t cid \<noteq> Some c"
    and "fst (capture_exec e t ctx fp src c cid) = None"
  shows "copy_calls (snd (capture_exec e t ctx fp src c cid)) =
           copy_calls t @ [(src, destinationFilePath_of e (config t) (MntID ctx) (Ts ctx) fp)]"
    and "capturedFiles (snd (capture_exec e t ctx fp src c cid)) = (capturedFiles t)(cid \<mapsto> c)"
    and "output_files (snd (capture_exec e t ctx fp src c cid)) =
           (output_files t)(destinationFilePath_of e (config t) (MntID ctx) (Ts ctx) fp
              \<mapsto> file_bytes e src)"
proof -
  let ?dst = "destinationFilePath_of e (config t) (MntID ctx) (Ts ctx) fp"
  let ?t1 = "if Capture_Profile (config t)
             then updateProfile t
                    (filepath_Join e (destinationDirPath_of e (config t) (MntID ctx))
                       (''exec.'' @ filepath_Base e fp) @ '':'' @ FormatInt (sint c))
                    (Ts ctx)
             else t"
  have f: "capturedFiles ?t1 = capturedFiles t" "copy_calls ?t1 = copy_calls t"
    "output_files ?t1 = output_files t"
    by (simp_all add: updateProfile_frame)
  obtain er files where cp: "CopyFileByPath e (output_files t) src ?dst = (er, files)"
    by (cases "CopyFileByPath e (output_files t) src ?dst")
  have mk: "os_MkdirAll e (destinationDirPath_of e (config t) (MntID ctx)) = None"
    using assms(2) by (simp add: capture_exec_def Let_def split: option.splits)
  have ce: "capture_exec e t ctx fp src c cid =
      (case er of
         Some err \<Rightarrow> (Some err, ?t1\<lparr>copy_calls := copy_calls t @ [(src, ?dst)],
                                     output_files := files\<rparr>)
       | None \<Rightarrow> (None, ?t1\<lparr>copy_calls := copy_calls t @ [(src, ?dst)],
                              output_files := files,
                              capturedFiles := (capturedFiles t)(cid \<mapsto> c)\<rparr>))"
    using assms(1) mk cp f
    by (cases er) (simp_all add: capture_exec_def Let_def)
  from assms(2) ce have er: "er = None" by (cases er) simp_all
  have files: "files = (output_files t)(?dst \<mapsto> file_bytes e src)"
    using CopyFileByPath_done [of e "output_files t" src ?dst] cp er by simp
  show "copy_calls (snd (capture_exec e t ctx fp src c cid)) = copy_calls t @ [(src, ?dst)]"
    unfolding ce er by simp
  show "capturedFiles (snd (capture_exec e t ctx fp src c cid)) = (capturedFiles t)(cid \<mapsto> c)"
    unfolding ce er by simp
  show "output_files (snd (capture_exec e t ctx fp src c cid)) =
      (output_files t)(?dst \<mapsto> file_bytes e src)"
    unfolding ce er files by simp
qed

lemma hash_exec_fields:
  "st_args (hash_exec e p src c cid) =
     (st_args p)(''sha256'' \<mapsto> VString (fst (lookup_hash e (fileHashes (st_tracee p)) src c cid)))"
  "st_argMetas (hash_exec e p src c cid) =
     st_argMetas p @ [\<lparr>Name = ''sha256'', Type = ''const char*''\<rparr>]"
  "st_ctx (hash_exec e p src c cid) = (st_ctx p)\<lparr>Argnum := Argnum (st_ctx p) + 1\<rparr>"
  "st_tracee (hash_exec e p src c cid) =
     (st_tracee p)\<lparr>fileHashes := snd (lookup_hash e (fileHashes (st_tracee p)) src c cid)\<rparr>"
  by (simp_all add: hash_exec_def split: prod.splits)

lemma lookup_hash_hit:
  assumes "fst (cache_Get e cache cid) = Some info" and "LastCtime info = c"
  shows "lookup_hash e cache src c cid = (Hash info, snd (cache_Get e cache cid))"
proof -
  obtain r c1 where g: "cache_Get e cache cid = (r, c1)" by (cases "cache_Get e cache cid")
  with assms show ?thesis by (simp add: lookup_hash_def)
qed

lemma lookup_hash_miss:
  assumes "\<not> (\<exists>info. fst (cache_Get e cache cid) = Some info \<and> LastCtime info = c)"
  shows "lookup_hash e cache src c cid =
     (getFileHash e src,
      cache_Add e (snd (cache_Get e cache cid)) cid \<lparr>LastCtime = c, Hash = getFileHash e src\<rparr>)"
proof -
  obtain r c1 where g: "cache_Get e cache cid = (r, c1)" by (cases "cache_Get e cache cid")
  with assms show ?thesis
    by (cases r) (simp_all add: lookup_hash_def recompute_hash_def Let_def)
qed

lemma lookup_hash_cases:
  "fst (lookup_hash e cache src c cid) = getFileHash e src \<or>
   (\<exists>info. fst (cache_Get e cache cid) = Some info \<and> LastCtime info = c \<and>
           fst (lookup_hash e cache src c cid) = Hash info)"
proof (cases "\<exists>info. fst (cache_Get e cache cid) = Some info \<and> LastCtime info = c")
  case True
  then obtain info where "fst (cache_Get e cache cid) = Some info" "LastCtime info = c"
    by blast
  then show ?thesis using lookup_hash_hit [of e cache cid info c src] by auto
next
  case False
  then show ?thesis using lookup_hash_miss [of e cache cid c src] by simp
qed

lemma bucket_insert_frame:
  "config (bucket_insert e t ctx) = config t"
  "capturedFiles (bucket_insert e t ctx) = capturedFiles t"
  "copy_calls (bucket_insert e t ctx) = copy_calls t"
  "fileHashes (bucket_insert e t ctx) = fileHashes t"
  "output_files (bucket_insert e t ctx) = output_files t"
  by (simp_all add: bucket_insert_def)

lemma exec_body_ctime:
  assumes "st_args p ''ctime'' = Some (VInt64 c)"
  shows "exec_body e p fp pid =
     (case (if Capture_Exec (config (st_tracee p))
            then capture_exec e (st_tracee p) (st_ctx p) fp
                   (proc_root_path pid fp) c
                   (capturedFileID_of (MntID (st_ctx p)) (proc_root_path pid fp))
            else (None, st_tracee p)) of
        (Some err, t1) \<Rightarrow> (Some err, p\<lparr>st_tracee := t1\<rparr>)
      | (None, t1) \<Rightarrow>
          (None,
           if Output_ExecHash (config (st_tracee p))
           then hash_exec e (p\<lparr>st_tracee := t1\<rparr>)
                  (proc_root_path pid fp) c
                  (capturedFileID_of (MntID (st_ctx p)) (proc_root_path pid fp))
           else p\<lparr>st_tracee := t1\<rparr>))"
  using assms by (simp add: exec_body_def Let_def)

text \<open>
  An exec event that reaches the body of the loop: the pathname is absolute and the
  bucket of the event's namespace, read after the insertion of the event's process,
  starts with pid.
\<close>

lemma exec_reaches_body:
  assumes "EventID (st_ctx p) = SchedProcessExecEventID"
    and "Capture_Exec (config (st_tracee p)) \<or> Output_ExecHash (config (st_tracee p))"
    and "st_args p ''pathname'' = Some (VString fp)"
    and "fp \<noteq> []" and "hd fp = CHR ''/''"
    and "GetBucket e (pidsInMntns (bucket_insert e (st_tracee p) (st_ctx p))) (MntID (st_ctx p))
           = pid # pids"
  shows "processEvent e p =
           exec_body e (p\<lparr>st_tracee := bucket_insert e (st_tracee p) (st_ctx p)\<rparr>) fp pid"
  using assms
  by (simp add: processEvent_def process_sched_process_exec_def Let_def bucket_insert_frame)

lemma exec_capture_result:
  assumes "EventID (st_ctx p) = SchedProcessExecEventID"
    and "Capture_Exec (config (st_tracee p))"
    and "st_args p ''pathname'' = Some (VString fp)"
    and "fp \<noteq> []" and "hd fp = CHR ''/''"
    and "st_args p ''ctime'' = Some (VInt64 c)"
    and "GetBucket e (pidsInMntns (bucket_insert e (st_tracee p) (st_ctx p))) (MntID (st_ctx p))
           = pid # pids"
    and "capture_exec e (bucket_insert e (st_tracee p) (st_ctx p)) (st_ctx p) fp
           (proc_root_path pid fp) c
           (capturedFileID_of (MntID (st_ctx p)) (proc_root_path pid fp)) = (er, t1)"
  shows "fst (processEvent e p) = er"
    and "copy_calls (st_tracee (snd (processEvent e p))) = copy_calls t1"
    and "capturedFiles (st_tracee (snd (processEvent e p))) = capturedFiles t1"
    and "config (st_tracee (snd (processEvent e p))) = config (st_tracee p)"
    and "pidsInMntns (st_tracee (snd (processEvent e p))) = pidsInMntns t1"
    and "output_files (st_tracee (snd (processEvent e p))) = output_files t1"
proof -
  let ?ti = "bucket_insert e (st_tracee p) (st_ctx p)"
  let ?p1 = "p\<lparr>st_tracee := ?ti\<rparr>"
  let ?src = "proc_root_path pid fp"
  let ?cid = "capturedFileID_of (MntID (st_ctx p)) ?src"
  have r: "processEvent e p = exec_body e ?p1 fp pid"
    using assms(1-5,7) by (intro exec_reaches_body) simp_all
  have ct: "st_args ?p1 ''ctime'' = Some (VInt64 c)" using assms(6) by simp
  have "config (snd (capture_exec e ?ti (st_ctx p) fp ?src c ?cid)) = config ?ti"
    by (rule capture_exec_frame(1))
  then have cfg: "config t1 = config (st_tracee p)"
    unfolding assms(8) by (simp add: bucket_insert_frame)
  have b: "exec_body e ?p1 fp pid =
     (case er of Some err \<Rightarrow> (Some err, p\<lparr>st_tracee := t1\<rparr>)
      | None \<Rightarrow> (None,
           if Output_ExecHash (config (st_tracee p))
           then hash_exec e (p\<lparr>st_tracee := t1\<rparr>) ?src c ?cid
           else p\<lparr>st_tracee := t1\<rparr>))"
    unfolding exec_body_ctime [OF ct]
    using assms(2) assms(8)
    by (simp add: bucket_insert_frame split: option.splits)
  show "fst (processEvent e p) = er"
    unfolding r b by (simp split: option.splits)
  show "copy_calls (st_tracee (snd (processEvent e p))) = copy_calls t1"
    unfolding r b by (simp add: hash_exec_fields split: option.splits)
  show "capturedFiles (st_tracee (snd (processEvent e p))) = capturedFiles t1"
    unfolding r b by (simp add: hash_exec_fields split: option.splits)
  show "config (st_tracee (snd (processEvent e p))) = config (st_tracee p)"
    unfolding r b using cfg by (simp add: hash_exec_fields split: option.splits)
  show "pidsInMntns (st_tracee (snd (processEvent e p))) = pidsInMntns t1"
    unfolding r b by (simp add: hash_exec_fields split: option.splits)
  show "output_files (st_tracee (snd (processEvent e p))) = output_files t1"
    unfolding r b by (simp add: hash_exec_fields split: option.splits)
qed

lemma exec_hash_result:
  assumes "EventID (st_ctx p) = SchedProcessExecEventID"
    and "Output_ExecHash (config (st_tracee p))"
    and "st_args p ''pathname'' = Some (VString fp)"
    and "fp \<noteq> []" and "hd fp = CHR ''/''"
    and "st_args p ''ctime'' = Some (VInt64 c)"
    and "GetBucket e (pidsInMntns (bucket_insert e (st_tracee p) (st_ctx p))) (MntID (st_ctx p))
           = pid # pids"
    and "\<not> Capture_Exec (config (st_tracee p)) \<or> fst (processEvent e p) = None"
  shows "\<exists>t1. fileHashes t1 = fileHashes (st_tracee p) \<and>
           processEvent e p =
             (None, hash_exec e (p\<lparr>st_tracee := t1\<rparr>)
                (proc_root_path pid fp) c
                (capturedFileID_of (MntID (st_ctx p)) (proc_root_path pid fp)))"
proof -
  let ?ti = "bucket_insert e (st_tracee p) (st_ctx p)"
  let ?p1 = "p\<lparr>st_tracee := ?ti\<rparr>"
  let ?src = "proc_root_path pid fp"
  let ?cid = "capturedFileID_of (MntID (st_ctx p)) ?src"
  have r: "processEvent e p = exec_body e ?p1 fp pid"
    using assms(1-5,7) by (intro exec_reaches_body) simp_all
  have ct: "st_args ?p1 ''ctime'' = Some (VInt64 c)" using assms(6) by simp
  show ?thesis
  proof (cases "Capture_Exec (config (st_tracee p))")
    case False
    have "processEvent e p = (None, hash_exec e (p\<lparr>st_tracee := ?ti\<rparr>) ?src c ?cid)"
      unfolding r exec_body_ctime [OF ct] using False assms(2)
      by (simp add: bucket_insert_frame)
    moreover have "fileHashes ?ti = fileHashes (st_tracee p)"
      by (simp add: bucket_insert_frame)
    ultimately show ?thesis by blast
  next
    case True
    with assms(8) have ok: "fst (processEvent e p) = None" by simp
    obtain er t1 where c: "capture_exec e ?ti (st_ctx p) fp ?src c ?cid = (er, t1)"
      by (cases "capture_exec e ?ti (st_ctx p) fp ?src c ?cid")
    have b: "processEvent e p =
       (case er of Some err \<Rightarrow> (Some err, p\<lparr>st_tracee := t1\<rparr>)
        | None \<Rightarrow> (None, hash_exec e (p\<lparr>st_tracee := t1\<rparr>) ?src c ?cid))"
      unfolding r exec_body_ctime [OF ct] using True assms(2) c
      by (simp add: bucket_insert_frame split: option.splits)
    from ok b have er: "er = None" by (cases er) simp_all
    have "fileHashes t1 = fileHashes (st_tracee p)"
      using capture_exec_frame(2) [of e ?ti "st_ctx p" fp ?src c ?cid] c
      by (simp add: bucket_insert_frame)
    moreover have "processEvent e p = (None, hash_exec e (p\<lparr>st_tracee := t1\<rparr>) ?src c ?cid)"
      using b er by simp
    ultimately show ?thesis by blast
  qed
qed

text \<open>The reference environment and events, evaluated.\<close>

lemma ref_paths:
  "proc_root_path 4242 ''/bin/ls'' = ''/proc/4242/root/bin/ls''"
  "proc_root_path 7 ''/bin/ls'' = ''/proc/7/root/bin/ls''"
  "proc_root_path 8 ''/bin/ls'' = ''/proc/8/root/bin/ls''"
  "capturedFileID_of 5 ''/proc/4242/root/bin/ls'' = ''5:/proc/4242/root/bin/ls''"
  "capturedFileID_of 5 ''/proc/7/root/bin/ls'' = ''5:/proc/7/root/bin/ls''"
  by (simp_all add: proc_root_path_def capturedFileID_of_def FormatUint.simps)

lemma ref_exec_event_fields:
  "EventID (st_ctx (ref_exec_event cfg b h hp ct)) = SchedProcessExecEventID"
  "MntID (st_ctx (ref_exec_event cfg b h hp ct)) = 5"
  "Pid (st_ctx (ref_exec_event cfg b h hp ct)) = 7"
  "HostPid (st_ctx (ref_exec_event cfg b h hp ct)) = hp"
  "Ts (st_ctx (ref_exec_event cfg b h hp ct)) = 1000"
  "Argnum (st_ctx (ref_exec_event cfg b h hp ct)) = 3"
  "config (st_tracee (ref_exec_event cfg b h hp ct)) = cfg"
  "st_args (ref_exec_event cfg b h hp ct) ''pathname'' = Some (VString ''/bin/ls'')"
  "st_args (ref_exec_event cfg b h hp ct) ''ctime'' = Some (VInt64 ct)"
  "st_args (ref_exec_event cfg b h hp ct) ''sha256'' = None"
  "st_argMetas (ref_exec_event cfg b h hp ct) = []"
  "fileHashes (st_tracee (ref_exec_event cfg b h hp ct)) = h"
  "pidsInMntns (st_tracee (ref_exec_event cfg b h hp ct)) = b"
  "capturedFiles (st_tracee (ref_exec_event cfg b h hp ct)) = Map.empty"
  "copy_calls (st_tracee (ref_exec_event cfg b h hp ct)) = []"
  "output_files (st_tracee (ref_exec_event cfg b h hp ct)) = Map.empty"
  by (simp_all add: ref_exec_event_def ref_ctx_def ref_tracee_def)

lemma ref_second_event_fields:
  "st_tracee (ref_second_event t ct) = t"
  "EventID (st_ctx (ref_second_event t ct)) = SchedProcessExecEventID"
  "MntID (st_ctx (ref_second_event t ct)) = 5"
  "Pid (st_ctx (ref_second_event t ct)) = 7"
  "HostPid (st_ctx (ref_second_event t ct)) = 4243"
  "Ts (st_ctx (ref_second_event t ct)) = 2000"
  "st_args (ref_second_event t ct) ''pathname'' = Some (VString ''/bin/ls'')"
  "st_args (ref_second_event t ct) ''ctime'' = Some (VInt64 ct)"
  by (simp_all add: ref_second_event_def ref_ctx_def)

lemma ref_bucket:
  "GetBucket (ref_env reg)
     (pidsInMntns (bucket_insert (ref_env reg) (st_tracee (ref_exec_event cfg b h hp ct))
        (st_ctx (ref_exec_event cfg b h hp ct))))
     (MntID (st_ctx (ref_exec_event cfg b h hp ct))) = b 5 @ [hp]"
  by (simp add: bucket_insert_def ref_exec_event_fields ref_env_def)

lemma ref_destination:
  assumes "Capture_OutputPath cfg = ''/tmp/tracee/out''"
  shows "destinationDirPath_of (ref_env reg) cfg 5 = ''/tmp/tracee/out/5''"
    and "destinationFilePath_of (ref_env reg) cfg 5 1000 ''/bin/ls'' =
           ''/tmp/tracee/out/5/exec.1000.ls''"
    and "destinationFilePath_of (ref_env reg) cfg 5 2000 ''/bin/ls'' =
           ''/tmp/tracee/out/5/exec.2000.ls''"
  using assms
  by (simp_all add: destinationDirPath_of_def destinationFilePath_of_def ref_env_def
      FormatUint.simps go_Join_def go_Clean_def clean_step_def go_Base_def)

lemma ref_copy:
  "CopyFileByPath (ref_env reg) files src dst =
     (if src \<in> set reg then (None, files(dst \<mapsto> ''bytes of '' @ src))
      else (Some (OSError ''no such file or directory''), files))"
  by (simp add: CopyFileByPath_def ref_env_def)

lemma ref_capture_exec:
  assumes "capturedFiles t cid \<noteq> Some c" and "\<not> Capture_Profile (config t)"
  shows "capture_exec (ref_env reg) t ctx fp src c cid =
     (if src \<in> set reg
      then (None, t\<lparr>copy_calls := copy_calls t @
                      [(src, destinationFilePath_of (ref_env reg) (config t) (MntID ctx) (Ts ctx) fp)],
                    output_files := (output_files t)
                      (destinationFilePath_of (ref_env reg) (config t) (MntID ctx) (Ts ctx) fp
                         \<mapsto> ''bytes of '' @ src),
                    capturedFiles := (capturedFiles t)(cid \<mapsto> c)\<rparr>)
      else (Some (OSError ''no such file or directory''),
            t\<lparr>copy_calls := copy_calls t @
                 [(src, destinationFilePath_of (ref_env reg) (config t) (MntID ctx) (Ts ctx) fp)],
              output_files := output_files t\<rparr>))"
proof -
  have m: "os_MkdirAll (ref_env reg) d = None" for d by (simp add: ref_env_def)
  show ?thesis using assms by (simp add: capture_exec_def Let_def m ref_copy)
qed

text \<open>The definitions that the evaluation of a reference run unfolds.\<close>

lemmas ref_eval =
  processEvent_def process_sched_process_exec_def exec_body_def capture_exec_def
  hash_exec_def lookup_hash_def recompute_hash_def
  CopyFileByPath_def bucket_insert_def Let_def
  ref_exec_event_def ref_second_event_def ref_tracee_def ref_ctx_def ref_config_def
  ref_env_def ref_env_disk_full_def ref_env_no_dir_def
  proc_root_path_def capturedFileID_of_def destinationDirPath_of_def destinationFilePath_of_def
  FormatUint.simps go_Join_def go_Clean_def clean_step_def go_Base_def

text \<open>
  C5, as the code has it. An exec event with hash-on-output on that reaches the hashing (absolute
  pathname, ctime of type int64, a first pid in the bucket, and the capture, when it
  is on as well, returning no error). The key is the namespace and the source path
  under the root of the first pid. When the cache returns an entry for the key whose
  change-time is the event's, the event gets the stored hash and nothing is added to
  the cache; in every other case the event gets the hash computed from the source
  path, and the pair of the event's change-time and that hash is added under the key.
\<close>

theorem C5_hash_cache:
  assumes "EventID (st_ctx p) = SchedProcessExecEventID"
    and "Output_ExecHash (config (st_tracee p))"
    and "st_args p ''pathname'' = Some (VString fp)"
    and "fp \<noteq> []" and "hd fp = CHR ''/''"
    and "st_args p ''ctime'' = Some (VInt64 c)"
    and "GetBucket e (pidsInMntns (bucket_insert e (st_tracee p) (st_ctx p))) (MntID (st_ctx p))
           = pid # pids"
    and "\<not> Capture_Exec (config (st_tracee p)) \<or> fst (processEvent e p) = None"
    and "cid = capturedFileID_of (MntID (st_ctx p)) (proc_root_path pid fp)"
    and "cached = cache_Get e (fileHashes (st_tracee p)) cid"
  shows "(\<forall>info. fst cached = Some info \<and> LastCtime info = c \<longrightarrow>
            st_args (snd (processEvent e p)) ''sha256'' = Some (VString (Hash info)) \<and>
            fileHashes (st_tracee (snd (processEvent e p))) = snd cached) \<and>
         (\<not> (\<exists>info. fst cached = Some info \<and> LastCtime info = c) \<longrightarrow>
            st_args (snd (processEvent e p)) ''sha256'' =
              Some (VString (getFileHash e (proc_root_path pid fp))) \<and>
            fileHashes (st_tracee (snd (processEvent e p))) =
              cache_Add e (snd cached) cid
                \<lparr>LastCtime = c, Hash = getFileHash e (proc_root_path pid fp)\<rparr>)"
proof -
  obtain t1 where t1: "fileHashes t1 = fileHashes (st_tracee p)"
    and r: "processEvent e p =
      (None, hash_exec e (p\<lparr>st_tracee := t1\<rparr>) (proc_root_path pid fp) c
               (capturedFileID_of (MntID (st_ctx p)) (proc_root_path pid fp)))"
    using exec_hash_result [OF assms(1-8)] by blast
  have args: "st_args (snd (processEvent e p)) ''sha256'' =
      Some (VString (fst (lookup_hash e (fileHashes (st_tracee p)) (proc_root_path pid fp) c cid)))"
    unfolding r assms(9) by (simp add: hash_exec_fields t1)
  have cache: "fileHashes (st_tracee (snd (processEvent e p))) =
      snd (lookup_hash e (fileHashes (st_tracee p)) (proc_root_path pid fp) c cid)"
    unfolding r assms(9) by (simp add: hash_exec_fields t1)
  show ?thesis
  proof (intro conjI allI impI)
    fix info assume "fst cached = Some info \<and> LastCtime info = c"
    then have "lookup_hash e (fileHashes (st_tracee p)) (proc_root_path pid fp) c cid =
        (Hash info, snd cached)"
      unfolding assms(10) by (simp add: lookup_hash_hit)
    then show "st_args (snd (processEvent e p)) ''sha256'' = Some (VString (Hash info))"
      and "fileHashes (st_tracee (snd (processEvent e p))) = snd cached"
      using args cache by simp_all
  next
    assume "\<not> (\<exists>info. fst cached = Some info \<and> LastCtime info = c)"
    then have m: "lookup_hash e (fileHashes (st_tracee p)) (proc_root_path pid fp) c cid =
        (getFileHash e (proc_root_path pid fp),
         cache_Add e (snd cached) cid
           \<lparr>LastCtime = c, Hash = getFileHash e (proc_root_path pid fp)\<rparr>)"
      unfolding assms(10) by (rule lookup_hash_miss)
    show "st_args (snd (processEvent e p)) ''sha256'' =
        Some (VString (getFileHash e (proc_root_path pid fp)))"
      using args m by simp
    show "fileHashes (st_tracee (snd (processEvent e p))) =
        cache_Add e (snd cached) cid
          \<lparr>LastCtime = c, Hash = getFileHash e (proc_root_path pid fp)\<rparr>"
      using cache m by simp
  qed
qed

theorem C5_witness:
  "st_args (snd (processEvent (ref_env [])
      (ref_exec_event (ref_config\<lparr>Output_ExecHash := True\<rparr>) (\<lambda>k. [])
         [''5:/proc/4242/root/bin/ls'' \<mapsto> \<lparr>LastCtime = 1000, Hash = ''cafe''\<rparr>] 4242 1000)))
     ''sha256'' = Some (VString ''cafe'') \<and>
   st_args (snd (processEvent (ref_env [])
      (ref_exec_event (ref_config\<lparr>Output_ExecHash := True\<rparr>) (\<lambda>k. [])
         [''5:/proc/4242/root/bin/ls'' \<mapsto> \<lparr>LastCtime = 1000, Hash = ''cafe''\<rparr>] 4242 2000)))
     ''sha256'' = Some (VString ''hash of /proc/4242/root/bin/ls'') \<and>
   fileHashes (st_tracee (snd (processEvent (ref_env [])
      (ref_exec_event (ref_config\<lparr>Output_ExecHash := True\<rparr>) (\<lambda>k. [])
         [''5:/proc/4242/root/bin/ls'' \<mapsto> \<lparr>LastCtime = 1000, Hash = ''cafe''\<rparr>] 4242 2000))))
     ''5:/proc/4242/root/bin/ls'' =
       Some \<lparr>LastCtime = 2000, Hash = ''hash of /proc/4242/root/bin/ls''\<rparr>"
proof -
  let ?cfg = "ref_config\<lparr>Output_ExecHash := True\<rparr>"
  let ?h = "[''5:/proc/4242/root/bin/ls'' \<mapsto> \<lparr>LastCtime = 1000, Hash = ''cafe''\<rparr>]"
  let ?e = "ref_env [] :: (nat \<Rightarrow> nat list, string \<rightharpoonup> fileExecInfo) env"
  have cfg: "Output_ExecHash ?cfg" "\<not> Capture_Exec ?cfg" by (simp_all add: ref_config_def)
  have g: "\<And>ct. cache_Get ?e (fileHashes (st_tracee (ref_exec_event ?cfg (\<lambda>k. []) ?h 4242 ct)))
      ''5:/proc/4242/root/bin/ls'' = (Some \<lparr>LastCtime = 1000, Hash = ''cafe''\<rparr>, ?h)"
    by (simp add: ref_env_def ref_exec_event_fields)
  have a: "cache_Add ?e ?h ''5:/proc/4242/root/bin/ls''
      \<lparr>LastCtime = 2000, Hash = ''hash of /proc/4242/root/bin/ls''\<rparr> ''5:/proc/4242/root/bin/ls'' =
      Some \<lparr>LastCtime = 2000, Hash = ''hash of /proc/4242/root/bin/ls''\<rparr>"
    by (simp add: ref_env_def)
  have hash: "getFileHash ?e ''/proc/4242/root/bin/ls'' = ''hash of /proc/4242/root/bin/ls''"
    by (simp add: ref_env_def)
  { fix ct :: "64 word"
    let ?p = "ref_exec_event ?cfg (\<lambda>k. []) ?h 4242 ct"
    have h1: "EventID (st_ctx ?p) = SchedProcessExecEventID" by (simp add: ref_exec_event_fields)
    have h2: "Output_ExecHash (config (st_tracee ?p))" by (simp add: ref_exec_event_fields cfg)
    have h3: "st_args ?p ''pathname'' = Some (VString ''/bin/ls'')"
      by (simp add: ref_exec_event_fields)
    have h4: "''/bin/ls'' \<noteq> []" by simp
    have h5: "hd ''/bin/ls'' = CHR ''/''" by simp
    have h6: "st_args ?p ''ctime'' = Some (VInt64 ct)" by (simp add: ref_exec_event_fields)
    have h7: "GetBucket ?e (pidsInMntns (bucket_insert ?e (st_tracee ?p) (st_ctx ?p)))
        (MntID (st_ctx ?p)) = 4242 # []"
      by (simp add: ref_bucket)
    have h8: "\<not> Capture_Exec (config (st_tracee ?p)) \<or> fst (processEvent ?e ?p) = None"
      by (simp add: ref_exec_event_fields cfg)
    have h9: "''5:/proc/4242/root/bin/ls'' =
        capturedFileID_of (MntID (st_ctx ?p)) (proc_root_path 4242 ''/bin/ls'')"
      by (simp add: ref_exec_event_fields ref_paths)
    have h10: "(Some \<lparr>LastCtime = 1000, Hash = ''cafe''\<rparr>, ?h) =
        cache_Get ?e (fileHashes (st_tracee ?p)) ''5:/proc/4242/root/bin/ls''"
      by (simp add: g)
    note C5_hash_cache [OF h1 h2 h3 h4 h5 h6 h7 h8 h9 h10]
  }
  note r = this
  have hit: "st_args (snd (processEvent ?e (ref_exec_event ?cfg (\<lambda>k. []) ?h 4242 1000)))
      ''sha256'' = Some (VString ''cafe'')"
    using r [of 1000] by simp
  have miss: "st_args (snd (processEvent ?e (ref_exec_event ?cfg (\<lambda>k. []) ?h 4242 2000)))
      ''sha256'' = Some (VString ''hash of /proc/4242/root/bin/ls'') \<and>
    fileHashes (st_tracee (snd (processEvent ?e (ref_exec_event ?cfg (\<lambda>k. []) ?h 4242 2000)))) =
      cache_Add ?e ?h ''5:/proc/4242/root/bin/ls''
        \<lparr>LastCtime = 2000, Hash = ''hash of /proc/4242/root/bin/ls''\<rparr>"
    using r [of 2000] by (simp add: ref_paths hash)
  show ?thesis using hit miss a by simp
qed

text \<open>
  The claim as stated has no condition on the capture. Below, hash-on-output and
  exec-capture are both on, the cache holds an entry for the key with the change-time
  of the event, and the directory of the capture cannot be created: processEvent
  returns the error of os.MkdirAll before the cache is read, and the event gets no
  sha256 argument.
\<close>

theorem C5_counterexample:
  "fst (cache_Get (ref_env_no_dir [''/proc/4242/root/bin/ls''])
      [''5:/proc/4242/root/bin/ls'' \<mapsto> \<lparr>LastCtime = 1000, Hash = ''cafe''\<rparr>]
      ''5:/proc/4242/root/bin/ls'') = Some \<lparr>LastCtime = 1000, Hash = ''cafe''\<rparr> \<and>
   fst (processEvent (ref_env_no_dir [''/proc/4242/root/bin/ls''])
      (ref_exec_event (ref_config\<lparr>Capture_Exec := True, Output_ExecHash := True\<rparr>) (\<lambda>k. [])
         [''5:/proc/4242/root/bin/ls'' \<mapsto> \<lparr>LastCtime = 1000, Hash = ''cafe''\<rparr>] 4242 1000)) =
     Some (OSError ''permission denied'') \<and>
   st_args (snd (processEvent (ref_env_no_dir [''/proc/4242/root/bin/ls''])
      (ref_exec_event (ref_config\<lparr>Capture_Exec := True, Output_ExecHash := True\<rparr>) (\<lambda>k. [])
         [''5:/proc/4242/root/bin/ls'' \<mapsto> \<lparr>LastCtime = 1000, Hash = ''cafe''\<rparr>] 4242 1000)))
     ''sha256'' = None"
  by (simp add: ref_eval)

text \<open>
  C9, as the code has it. An exec event with hash-on-output on, an absolute pathname, a ctime of type
  int64 and a bucket that is not empty, for which the capture does not end the
  processing (exec-capture is off, or the event is processed without error):
  processEvent returns no error, sets args["sha256"] to a string that is the computed
  hash or the cached one and changes no other argument, appends the one descriptor
  sha256 of type const char* to the metadata, and adds one to the argument count
  (in the arithmetic of the count's machine type) and changes nothing else of the
  context.
\<close>

theorem C9_sha256_argument:
  assumes "EventID (st_ctx p) = SchedProcessExecEventID"
    and "Output_ExecHash (config (st_tracee p))"
    and "st_args p ''pathname'' = Some (VString fp)"
    and "fp \<noteq> []" and "hd fp = CHR ''/''"
    and "st_args p ''ctime'' = Some (VInt64 c)"
    and "GetBucket e (pidsInMntns (bucket_insert e (st_tracee p) (st_ctx p))) (MntID (st_ctx p))
           = pid # pids"
    and "\<not> Capture_Exec (config (st_tracee p)) \<or> fst (processEvent e p) = None"
  shows "fst (processEvent e p) = None \<and>
         (\<exists>h. st_args (snd (processEvent e p)) = (st_args p)(''sha256'' \<mapsto> VString h) \<and>
              (h = getFileHash e (proc_root_path pid fp) \<or>
               (\<exists>info. fst (cache_Get e (fileHashes (st_tracee p))
                              (capturedFileID_of (MntID (st_ctx p)) (proc_root_path pid fp)))
                         = Some info \<and> LastCtime info = c \<and> h = Hash info))) \<and>
         st_argMetas (snd (processEvent e p)) =
           st_argMetas p @ [\<lparr>Name = ''sha256'', Type = ''const char*''\<rparr>] \<and>
         st_ctx (snd (processEvent e p)) = (st_ctx p)\<lparr>Argnum := Argnum (st_ctx p) + 1\<rparr>"
proof -
  obtain t1 where t1: "fileHashes t1 = fileHashes (st_tracee p)"
    and r: "processEvent e p =
      (None, hash_exec e (p\<lparr>st_tracee := t1\<rparr>) (proc_root_path pid fp) c
               (capturedFileID_of (MntID (st_ctx p)) (proc_root_path pid fp)))"
    using exec_hash_result [OF assms] by blast
  have 1: "fst (processEvent e p) = None" unfolding r by simp
  have 2: "st_args (snd (processEvent e p)) = (st_args p)(''sha256'' \<mapsto> VString
      (fst (lookup_hash e (fileHashes (st_tracee p)) (proc_root_path pid fp) c
              (capturedFileID_of (MntID (st_ctx p)) (proc_root_path pid fp)))))"
    unfolding r by (simp add: hash_exec_fields t1)
  have 3: "st_argMetas (snd (processEvent e p)) =
           st_argMetas p @ [\<lparr>Name = ''sha256'', Type = ''const char*''\<rparr>]"
    unfolding r by (simp add: hash_exec_fields)
  have 4: "st_ctx (snd (processEvent e p)) = (st_ctx p)\<lparr>Argnum := Argnum (st_ctx p) + 1\<rparr>"
    unfolding r by (simp add: hash_exec_fields)
  show ?thesis
    using 1 2 3 4
      lookup_hash_cases [of e "fileHashes (st_tracee p)" "proc_root_path pid fp" c
        "capturedFileID_of (MntID (st_ctx p)) (proc_root_path pid fp)"]
    by blast
qed

theorem C9_witness:
  "fst (processEvent (ref_env [])
         (ref_exec_event (ref_config\<lparr>Output_ExecHash := True\<rparr>) (\<lambda>k. []) Map.empty 4242 1000)) = None \<and>
   st_args (snd (processEvent (ref_env [])
         (ref_exec_event (ref_config\<lparr>Output_ExecHash := True\<rparr>) (\<lambda>k. []) Map.empty 4242 1000)))
     ''sha256'' = Some (VString ''hash of /proc/4242/root/bin/ls'') \<and>
   st_argMetas (snd (processEvent (ref_env [])
         (ref_exec_event (ref_config\<lparr>Output_ExecHash := True\<rparr>) (\<lambda>k. []) Map.empty 4242 1000)))
     = [\<lparr>Name = ''sha256'', Type = ''const char*''\<rparr>] \<and>
   Argnum (st_ctx (snd (processEvent (ref_env [])
         (ref_exec_event (ref_config\<lparr>Output_ExecHash := True\<rparr>) (\<lambda>k. []) Map.empty 4242 1000))))
     = 4"
proof -
  let ?cfg = "ref_config\<lparr>Output_ExecHash := True\<rparr>"
  let ?p = "ref_exec_event ?cfg (\<lambda>k. []) Map.empty 4242 1000"
  let ?e = "ref_env [] :: (nat \<Rightarrow> nat list, string \<rightharpoonup> fileExecInfo) env"
  have h1: "EventID (st_ctx ?p) = SchedProcessExecEventID" by (simp add: ref_exec_event_fields)
  have h2: "Output_ExecHash (config (st_tracee ?p))" by (simp add: ref_exec_event_fields)
  have h3: "st_args ?p ''pathname'' = Some (VString ''/bin/ls'')"
    by (simp add: ref_exec_event_fields)
  have h4: "''/bin/ls'' \<noteq> []" by simp
  have h5: "hd ''/bin/ls'' = CHR ''/''" by simp
  have h6: "st_args ?p ''ctime'' = Some (VInt64 1000)" by (simp add: ref_exec_event_fields)
  have h7: "GetBucket ?e (pidsInMntns (bucket_insert ?e (st_tracee ?p) (st_ctx ?p)))
      (MntID (st_ctx ?p)) = 4242 # []"
    by (simp add: ref_bucket)
  have h8: "\<not> Capture_Exec (config (st_tracee ?p)) \<or> fst (processEvent ?e ?p) = None"
    by (simp add: ref_exec_event_fields ref_config_def)
  note r = C9_sha256_argument [OF h1 h2 h3 h4 h5 h6 h7 h8]
  have miss: "fst (cache_Get ?e (fileHashes (st_tracee ?p))
      (capturedFileID_of (MntID (st_ctx ?p)) (proc_root_path 4242 ''/bin/ls''))) = None"
    by (simp add: ref_env_def ref_exec_event_fields)
  have hash: "getFileHash ?e (proc_root_path 4242 ''/bin/ls'') = ''hash of /proc/4242/root/bin/ls''"
    by (simp add: ref_env_def ref_paths)
  from r miss hash have a: "st_args (snd (processEvent ?e ?p)) =
      (st_args ?p)(''sha256'' \<mapsto> VString ''hash of /proc/4242/root/bin/ls'')"
    by auto
  from r have b: "fst (processEvent ?e ?p) = None" by blast
  from r have c: "st_argMetas (snd (processEvent ?e ?p)) =
      st_argMetas ?p @ [\<lparr>Name = ''sha256'', Type = ''const char*''\<rparr>]" by blast
  from r have d: "st_ctx (snd (processEvent ?e ?p)) = (st_ctx ?p)\<lparr>Argnum := Argnum (st_ctx ?p) + 1\<rparr>"
    by blast
  show ?thesis
    unfolding a b c d by (simp add: ref_exec_event_fields)
qed

text \<open>
  The claim as stated lists hash-on-output, an absolute pathname, a ctime of type
  int64 and a bucket that is not empty. Below, all four hold and exec-capture is on as
  well; the file under the root of the only pid of the bucket does not exist, so the
  copy fails and processEvent returns its error before the hashing: no sha256
  argument, no descriptor, and the argument count is unchanged.
\<close>

theorem C9_counterexample:
  "Output_ExecHash (config (st_tracee (ref_exec_event
      (ref_config\<lparr>Capture_Exec := True, Output_ExecHash := True\<rparr>) (\<lambda>k. []) Map.empty 4242 1000))) \<and>
   GetBucket (ref_env [])
     (pidsInMntns (bucket_insert (ref_env [])
        (st_tracee (ref_exec_event
           (ref_config\<lparr>Capture_Exec := True, Output_ExecHash := True\<rparr>) (\<lambda>k. []) Map.empty 4242 1000))
        (st_ctx (ref_exec_event
           (ref_config\<lparr>Capture_Exec := True, Output_ExecHash := True\<rparr>) (\<lambda>k. []) Map.empty 4242 1000))))
     5 = [4242] \<and>
   fst (processEvent (ref_env [])
      (ref_exec_event (ref_config\<lparr>Capture_Exec := True, Output_ExecHash := True\<rparr>)
         (\<lambda>k. []) Map.empty 4242 1000)) = Some (OSError ''no such file or directory'') \<and>
   st_args (snd (processEvent (ref_env [])
      (ref_exec_event (ref_config\<lparr>Capture_Exec := True, Output_ExecHash := True\<rparr>)
         (\<lambda>k. []) Map.empty 4242 1000))) ''sha256'' = None \<and>
   st_argMetas (snd (processEvent (ref_env [])
      (ref_exec_event (ref_config\<lparr>Capture_Exec := True, Output_ExecHash := True\<rparr>)
         (\<lambda>k. []) Map.empty 4242 1000))) = [] \<and>
   Argnum (st_ctx (snd (processEvent (ref_env [])
      (ref_exec_event (ref_config\<lparr>Capture_Exec := True, Output_ExecHash := True\<rparr>)
         (\<lambda>k. []) Map.empty 4242 1000)))) = 3"
proof -
  let ?cfg = "ref_config\<lparr>Capture_Exec := True, Output_ExecHash := True\<rparr>"
  let ?p = "ref_exec_event ?cfg (\<lambda>k. []) Map.empty 4242 1000"
  let ?e = "ref_env [] :: (nat \<Rightarrow> nat list, string \<rightharpoonup> fileExecInfo) env"
  let ?ti = "bucket_insert ?e (st_tracee ?p) (st_ctx ?p)"
  let ?p1 = "?p\<lparr>st_tracee := ?ti\<rparr>"
  have cfg: "Capture_Exec ?cfg" "Output_ExecHash ?cfg" "\<not> Capture_Profile ?cfg"
    by (simp_all add: ref_config_def)
  have h1: "EventID (st_ctx ?p) = SchedProcessExecEventID" by (simp add: ref_exec_event_fields)
  have h2: "Capture_Exec (config (st_tracee ?p)) \<or> Output_ExecHash (config (st_tracee ?p))"
    by (simp add: ref_exec_event_fields cfg)
  have h3: "st_args ?p ''pathname'' = Some (VString ''/bin/ls'')"
    by (simp add: ref_exec_event_fields)
  have h4: "''/bin/ls'' \<noteq> []" by simp
  have h5: "hd ''/bin/ls'' = CHR ''/''" by simp
  have h7: "GetBucket ?e (pidsInMntns ?ti) (MntID (st_ctx ?p)) = 4242 # []"
    by (simp add: ref_bucket)
  have r: "processEvent ?e ?p = exec_body ?e ?p1 ''/bin/ls'' 4242"
    using exec_reaches_body [OF h1 h2 h3 h4 h5 h7] .
  have ct: "st_args ?p1 ''ctime'' = Some (VInt64 1000)" by (simp add: ref_exec_event_fields)
  have fresh: "capturedFiles ?ti (capturedFileID_of 5 (proc_root_path 4242 ''/bin/ls'')) \<noteq> Some 1000"
    by (simp add: bucket_insert_frame ref_exec_event_fields)
  have np: "\<not> Capture_Profile (config ?ti)"
    by (simp add: bucket_insert_frame ref_exec_event_fields cfg)
  have cap: "fst (capture_exec ?e ?ti (st_ctx ?p) ''/bin/ls'' (proc_root_path 4242 ''/bin/ls'') 1000
      (capturedFileID_of 5 (proc_root_path 4242 ''/bin/ls''))) =
      Some (OSError ''no such file or directory'')"
    using ref_capture_exec [OF fresh np, of "[]" "st_ctx ?p" "''/bin/ls''"
        "proc_root_path 4242 ''/bin/ls''"]
    by simp
  obtain t1 where c: "capture_exec ?e ?ti (st_ctx ?p) ''/bin/ls'' (proc_root_path 4242 ''/bin/ls'') 1000
      (capturedFileID_of 5 (proc_root_path 4242 ''/bin/ls'')) =
      (Some (OSError ''no such file or directory''), t1)"
    using cap
    by (cases "capture_exec ?e ?ti (st_ctx ?p) ''/bin/ls'' (proc_root_path 4242 ''/bin/ls'') 1000
      (capturedFileID_of 5 (proc_root_path 4242 ''/bin/ls''))") simp
  have b: "exec_body ?e ?p1 ''/bin/ls'' 4242 =
      (Some (OSError ''no such file or directory''), ?p\<lparr>st_tracee := t1\<rparr>)"
    unfolding exec_body_ctime [OF ct]
    using c by (simp add: bucket_insert_frame ref_exec_event_fields cfg)
  have g: "GetBucket ?e (pidsInMntns ?ti) 5 = [4242]"
    using h7 by (simp add: ref_exec_event_fields)
  show ?thesis
    unfolding r b using g by (simp add: ref_exec_event_fields cfg)
qed

text \<open>
  C6, as the code has it. Two exec events with exec-capture on, for the same namespace
  and pathname and resolved through the same first pid. The first has change-time c,
  finds no record of c for the file and is processed without error: it makes one call
  of CopyFileByPath, after which the capture file of the event holds the bytes of the
  source, and c is recorded. If the second has the same change-time, it makes no call
  of CopyFileByPath and writes no file, whatever the environment; if its change-time
  differs and it is processed without error, it makes exactly one call, its capture
  file holds the bytes of the source, and the record holds the new change-time.
\<close>

theorem C6_capture_once:
  assumes "EventID (st_ctx p) = SchedProcessExecEventID"
    and "Capture_Exec (config (st_tracee p))"
    and "st_args p ''pathname'' = Some (VString fp)"
    and "fp \<noteq> []" and "hd fp = CHR ''/''"
    and "st_args p ''ctime'' = Some (VInt64 c)"
    and "GetBucket e (pidsInMntns (bucket_insert e (st_tracee p) (st_ctx p))) (MntID (st_ctx p))
           = pid # pids"
    and "cid = capturedFileID_of (MntID (st_ctx p)) (proc_root_path pid fp)"
    and "capturedFiles (st_tracee p) cid \<noteq> Some c"
    and "fst (processEvent e p) = None"
    and "st_tracee q = st_tracee (snd (processEvent e p))"
    and "EventID (st_ctx q) = SchedProcessExecEventID"
    and "MntID (st_ctx q) = MntID (st_ctx p)"
    and "st_args q ''pathname'' = Some (VString fp)"
    and "st_args q ''ctime'' = Some (VInt64 c2)"
    and "GetBucket e2 (pidsInMntns (bucket_insert e2 (st_tracee q) (st_ctx q))) (MntID (st_ctx q))
           = pid # pids2"
  shows "copy_calls (st_tracee q) =
           copy_calls (st_tracee p) @
             [(proc_root_path pid fp,
               destinationFilePath_of e (config (st_tracee p)) (MntID (st_ctx p)) (Ts (st_ctx p)) fp)] \<and>
         output_files (st_tracee q) =
           (output_files (st_tracee p))
             (destinationFilePath_of e (config (st_tracee p)) (MntID (st_ctx p)) (Ts (st_ctx p)) fp
                \<mapsto> file_bytes e (proc_root_path pid fp)) \<and>
         capturedFiles (st_tracee q) cid = Some c \<and>
         (c2 = c \<longrightarrow>
            copy_calls (st_tracee (snd (processEvent e2 q))) = copy_calls (st_tracee q) \<and>
            output_files (st_tracee (snd (processEvent e2 q))) = output_files (st_tracee q) \<and>
            capturedFiles (st_tracee (snd (processEvent e2 q))) cid = Some c) \<and>
         (c2 \<noteq> c \<and> fst (processEvent e2 q) = None \<longrightarrow>
            copy_calls (st_tracee (snd (processEvent e2 q))) =
              copy_calls (st_tracee q) @
                [(proc_root_path pid fp,
                  destinationFilePath_of e2 (config (st_tracee p)) (MntID (st_ctx p)) (Ts (st_ctx q)) fp)] \<and>
            output_files (st_tracee (snd (processEvent e2 q))) =
              (output_files (st_tracee q))
                (destinationFilePath_of e2 (config (st_tracee p)) (MntID (st_ctx p)) (Ts (st_ctx q)) fp
                   \<mapsto> file_bytes e2 (proc_root_path pid fp)) \<and>
            capturedFiles (st_tracee (snd (processEvent e2 q))) cid = Some c2)"
proof -
  let ?t = "st_tracee p"
  let ?ti = "bucket_insert e ?t (st_ctx p)"
  let ?src = "proc_root_path pid fp"
  obtain er ta where ca: "capture_exec e ?ti (st_ctx p) fp ?src c
      (capturedFileID_of (MntID (st_ctx p)) ?src) = (er, ta)"
    by (cases "capture_exec e ?ti (st_ctx p) fp ?src c (capturedFileID_of (MntID (st_ctx p)) ?src)")
  note res = exec_capture_result [OF assms(1-7) ca]
  from res(1) assms(10) have er: "er = None" by simp
  have fresh0: "capturedFiles ?ti cid \<noteq> Some c"
    using assms(9) by (simp add: bucket_insert_frame)
  have ok0: "fst (capture_exec e ?ti (st_ctx p) fp ?src c cid) = None"
    unfolding assms(8) ca er by simp
  note cp = capture_exec_copy [OF fresh0 ok0]
  have ta1: "copy_calls ta = copy_calls ?t @
      [(?src, destinationFilePath_of e (config ?t) (MntID (st_ctx p)) (Ts (st_ctx p)) fp)]"
    using cp(1) unfolding assms(8) ca by (simp add: bucket_insert_frame)
  have ta2: "capturedFiles ta = (capturedFiles ?t)(cid \<mapsto> c)"
    using cp(2) unfolding assms(8) ca by (simp add: bucket_insert_frame)
  have ta3: "output_files ta = (output_files ?t)
      (destinationFilePath_of e (config ?t) (MntID (st_ctx p)) (Ts (st_ctx p)) fp
         \<mapsto> file_bytes e ?src)"
    using cp(3) unfolding assms(8) ca by (simp add: bucket_insert_frame)
  have q3: "output_files (st_tracee q) = (output_files ?t)
      (destinationFilePath_of e (config ?t) (MntID (st_ctx p)) (Ts (st_ctx p)) fp
         \<mapsto> file_bytes e ?src)"
    unfolding assms(11) res(6) by (rule ta3)
  have q1: "copy_calls (st_tracee q) = copy_calls ?t @
      [(?src, destinationFilePath_of e (config ?t) (MntID (st_ctx p)) (Ts (st_ctx p)) fp)]"
    unfolding assms(11) res(2) by (rule ta1)
  have q2: "capturedFiles (st_tracee q) = (capturedFiles ?t)(cid \<mapsto> c)"
    unfolding assms(11) res(3) by (rule ta2)
  have qcfg: "config (st_tracee q) = config ?t"
    unfolding assms(11) by (rule res(4))
  have qcap: "Capture_Exec (config (st_tracee q))"
    unfolding qcfg by (rule assms(2))
  let ?qi = "bucket_insert e2 (st_tracee q) (st_ctx q)"
  have cidq: "capturedFileID_of (MntID (st_ctx q)) ?src = cid"
    unfolding assms(8) assms(13) by simp
  obtain er2 tb where cb: "capture_exec e2 ?qi (st_ctx q) fp ?src c2
      (capturedFileID_of (MntID (st_ctx q)) ?src) = (er2, tb)"
    by (cases "capture_exec e2 ?qi (st_ctx q) fp ?src c2 (capturedFileID_of (MntID (st_ctx q)) ?src)")
  note res2 = exec_capture_result [OF assms(12) qcap assms(14) assms(4,5) assms(15,16) cb]
  have q0c: "capturedFiles ?qi cid = Some c"
    using q2 by (simp add: bucket_insert_frame)
  have same: "c2 = c \<longrightarrow>
      copy_calls (st_tracee (snd (processEvent e2 q))) = copy_calls (st_tracee q) \<and>
      output_files (st_tracee (snd (processEvent e2 q))) = output_files (st_tracee q) \<and>
      capturedFiles (st_tracee (snd (processEvent e2 q))) cid = Some c"
  proof
    assume eq: "c2 = c"
    note sk = capture_exec_skip [OF q0c, of e2 "st_ctx q" fp ?src]
    have "copy_calls tb = copy_calls (st_tracee q)"
      using sk(1) cb unfolding cidq eq by (simp add: bucket_insert_frame)
    moreover have "capturedFiles tb = capturedFiles (st_tracee q)"
      using sk(2) cb unfolding cidq eq by (simp add: bucket_insert_frame)
    moreover have "output_files tb = output_files (st_tracee q)"
      using sk(3) cb unfolding cidq eq by (simp add: bucket_insert_frame)
    ultimately show "copy_calls (st_tracee (snd (processEvent e2 q))) = copy_calls (st_tracee q) \<and>
      output_files (st_tracee (snd (processEvent e2 q))) = output_files (st_tracee q) \<and>
      capturedFiles (st_tracee (snd (processEvent e2 q))) cid = Some c"
      unfolding res2(2) res2(3) res2(6) using q2 by simp
  qed
  have changed: "c2 \<noteq> c \<and> fst (processEvent e2 q) = None \<longrightarrow>
      copy_calls (st_tracee (snd (processEvent e2 q))) =
        copy_calls (st_tracee q) @
          [(?src, destinationFilePath_of e2 (config ?t) (MntID (st_ctx p)) (Ts (st_ctx q)) fp)] \<and>
      output_files (st_tracee (snd (processEvent e2 q))) =
        (output_files (st_tracee q))
          (destinationFilePath_of e2 (config ?t) (MntID (st_ctx p)) (Ts (st_ctx q)) fp
             \<mapsto> file_bytes e2 ?src) \<and>
      capturedFiles (st_tracee (snd (processEvent e2 q))) cid = Some c2"
  proof
    assume h: "c2 \<noteq> c \<and> fst (processEvent e2 q) = None"
    with res2(1) have er2: "er2 = None" by simp
    have fresh2: "capturedFiles ?qi cid \<noteq> Some c2"
      using q0c h by auto
    have ok2: "fst (capture_exec e2 ?qi (st_ctx q) fp ?src c2 cid) = None"
      using cb unfolding cidq er2 by simp
    note cp2 = capture_exec_copy [OF fresh2 ok2]
    have "copy_calls tb = copy_calls (st_tracee q) @
        [(?src, destinationFilePath_of e2 (config ?t) (MntID (st_ctx p)) (Ts (st_ctx q)) fp)]"
      using cp2(1) cb unfolding cidq by (simp add: bucket_insert_frame qcfg assms(13))
    moreover have "capturedFiles tb cid = Some c2"
      using cp2(2) cb unfolding cidq by simp
    moreover have "output_files tb = (output_files (st_tracee q))
          (destinationFilePath_of e2 (config ?t) (MntID (st_ctx p)) (Ts (st_ctx q)) fp
             \<mapsto> file_bytes e2 ?src)"
      using cp2(3) cb unfolding cidq by (simp add: bucket_insert_frame qcfg assms(13))
    ultimately show "copy_calls (st_tracee (snd (processEvent e2 q))) =
        copy_calls (st_tracee q) @
          [(?src, destinationFilePath_of e2 (config ?t) (MntID (st_ctx p)) (Ts (st_ctx q)) fp)] \<and>
      output_files (st_tracee (snd (processEvent e2 q))) =
        (output_files (st_tracee q))
          (destinationFilePath_of e2 (config ?t) (MntID (st_ctx p)) (Ts (st_ctx q)) fp
             \<mapsto> file_bytes e2 ?src) \<and>
      capturedFiles (st_tracee (snd (processEvent e2 q))) cid = Some c2"
      unfolding res2(2) res2(3) res2(6) by simp
  qed
  show ?thesis using q1 q2 q3 same changed by simp
qed

theorem C6_witness:
  "copy_calls (st_tracee (snd (processEvent (ref_env [''/proc/4242/root/bin/ls''])
      (ref_second_event
         (st_tracee (snd (processEvent (ref_env [''/proc/4242/root/bin/ls''])
            (ref_exec_event (ref_config\<lparr>Capture_Exec := True\<rparr>) (\<lambda>k. []) Map.empty 4242 1000))))
         1000)))) =
     [(''/proc/4242/root/bin/ls'', ''/tmp/tracee/out/5/exec.1000.ls'')] \<and>
   output_files (st_tracee (snd (processEvent (ref_env [''/proc/4242/root/bin/ls''])
      (ref_second_event
         (st_tracee (snd (processEvent (ref_env [''/proc/4242/root/bin/ls''])
            (ref_exec_event (ref_config\<lparr>Capture_Exec := True\<rparr>) (\<lambda>k. []) Map.empty 4242 1000))))
         1000)))) =
     [''/tmp/tracee/out/5/exec.1000.ls'' \<mapsto> ''bytes of /proc/4242/root/bin/ls''] \<and>
   copy_calls (st_tracee (snd (processEvent (ref_env [''/proc/4242/root/bin/ls''])
      (ref_second_event
         (st_tracee (snd (processEvent (ref_env [''/proc/4242/root/bin/ls''])
            (ref_exec_event (ref_config\<lparr>Capture_Exec := True\<rparr>) (\<lambda>k. []) Map.empty 4242 1000))))
         1001)))) =
     [(''/proc/4242/root/bin/ls'', ''/tmp/tracee/out/5/exec.1000.ls''),
      (''/proc/4242/root/bin/ls'', ''/tmp/tracee/out/5/exec.2000.ls'')] \<and>
   output_files (st_tracee (snd (processEvent (ref_env [''/proc/4242/root/bin/ls''])
      (ref_second_event
         (st_tracee (snd (processEvent (ref_env [''/proc/4242/root/bin/ls''])
            (ref_exec_event (ref_config\<lparr>Capture_Exec := True\<rparr>) (\<lambda>k. []) Map.empty 4242 1000))))
         1001)))) =
     [''/tmp/tracee/out/5/exec.1000.ls'' \<mapsto> ''bytes of /proc/4242/root/bin/ls'',
      ''/tmp/tracee/out/5/exec.2000.ls'' \<mapsto> ''bytes of /proc/4242/root/bin/ls''] \<and>
   capturedFiles (st_tracee (snd (processEvent (ref_env [''/proc/4242/root/bin/ls''])
      (ref_second_event
         (st_tracee (snd (processEvent (ref_env [''/proc/4242/root/bin/ls''])
            (ref_exec_event (ref_config\<lparr>Capture_Exec := True\<rparr>) (\<lambda>k. []) Map.empty 4242 1000))))
         1001)))) ''5:/proc/4242/root/bin/ls'' = Some 1001"
proof -
  let ?cfg = "ref_config\<lparr>Capture_Exec := True\<rparr>"
  let ?p = "ref_exec_event ?cfg (\<lambda>k. []) Map.empty 4242 1000"
  let ?e = "ref_env [''/proc/4242/root/bin/ls''] :: (nat \<Rightarrow> nat list, string \<rightharpoonup> fileExecInfo) env"
  let ?T = "st_tracee (snd (processEvent ?e ?p))"
  have h1: "EventID (st_ctx ?p) = SchedProcessExecEventID" by (simp add: ref_eval)
  have h2: "Capture_Exec (config (st_tracee ?p))" by (simp add: ref_eval)
  have h3: "st_args ?p ''pathname'' = Some (VString ''/bin/ls'')" by (simp add: ref_eval)
  have h4: "''/bin/ls'' \<noteq> []" by simp
  have h5: "hd ''/bin/ls'' = CHR ''/''" by simp
  have h6: "st_args ?p ''ctime'' = Some (VInt64 1000)" by (simp add: ref_eval)
  have h7: "GetBucket ?e (pidsInMntns (bucket_insert ?e (st_tracee ?p) (st_ctx ?p)))
      (MntID (st_ctx ?p)) = 4242 # []"
    by (simp add: ref_eval)
  have h8: "''5:/proc/4242/root/bin/ls'' =
      capturedFileID_of (MntID (st_ctx ?p)) (proc_root_path 4242 ''/bin/ls'')"
    by (simp add: ref_eval)
  have h9: "capturedFiles (st_tracee ?p) ''5:/proc/4242/root/bin/ls'' \<noteq> Some 1000"
    by (simp add: ref_eval)
  have h10: "fst (processEvent ?e ?p) = None" by (simp add: ref_eval)
  { fix ct :: "64 word"
    let ?q = "ref_second_event ?T ct"
    have h11: "st_tracee ?q = st_tracee (snd (processEvent ?e ?p))"
      by (simp add: ref_second_event_def)
    have h12: "EventID (st_ctx ?q) = SchedProcessExecEventID" by (simp add: ref_eval)
    have h13: "MntID (st_ctx ?q) = MntID (st_ctx ?p)" by (simp add: ref_eval)
    have h14: "st_args ?q ''pathname'' = Some (VString ''/bin/ls'')" by (simp add: ref_eval)
    have h15: "st_args ?q ''ctime'' = Some (VInt64 ct)" by (simp add: ref_eval)
    have h16: "GetBucket ?e (pidsInMntns (bucket_insert ?e (st_tracee ?q) (st_ctx ?q)))
        (MntID (st_ctx ?q)) = 4242 # [4243]"
      by (simp add: ref_eval)
    note C6_capture_once [OF h1 h2 h3 h4 h5 h6 h7 h8 h9 h10 h11 h12 h13 h14 h15 h16]
  }
  note r = this
  have ok2: "fst (processEvent ?e (ref_second_event ?T 1001)) = None"
    by (simp add: ref_eval)
  have first: "copy_calls ?T = [(''/proc/4242/root/bin/ls'', ''/tmp/tracee/out/5/exec.1000.ls'')]"
    "output_files ?T = [''/tmp/tracee/out/5/exec.1000.ls'' \<mapsto> ''bytes of /proc/4242/root/bin/ls'']"
    by (simp_all add: ref_eval)
  have names: "proc_root_path 4242 ''/bin/ls'' = ''/proc/4242/root/bin/ls''"
    "destinationFilePath_of ?e (config (st_tracee ?p)) (MntID (st_ctx ?p))
       (Ts (st_ctx (ref_second_event ?T 1001))) ''/bin/ls'' = ''/tmp/tracee/out/5/exec.2000.ls''"
    "file_bytes ?e ''/proc/4242/root/bin/ls'' = ''bytes of /proc/4242/root/bin/ls''"
    "st_tracee (ref_second_event ?T 1000) = ?T" "st_tracee (ref_second_event ?T 1001) = ?T"
    by (simp_all add: ref_eval)
  from r [of 1000] have same:
    "copy_calls (st_tracee (snd (processEvent ?e (ref_second_event ?T 1000)))) =
       copy_calls (st_tracee (ref_second_event ?T 1000))"
    "output_files (st_tracee (snd (processEvent ?e (ref_second_event ?T 1000)))) =
       output_files (st_tracee (ref_second_event ?T 1000))"
    by blast+
  from r [of 1001] ok2 have changed:
    "copy_calls (st_tracee (snd (processEvent ?e (ref_second_event ?T 1001)))) =
       copy_calls (st_tracee (ref_second_event ?T 1001)) @
         [(proc_root_path 4242 ''/bin/ls'',
           destinationFilePath_of ?e (config (st_tracee ?p)) (MntID (st_ctx ?p))
             (Ts (st_ctx (ref_second_event ?T 1001))) ''/bin/ls'')]"
    "output_files (st_tracee (snd (processEvent ?e (ref_second_event ?T 1001)))) =
       (output_files (st_tracee (ref_second_event ?T 1001)))
         (destinationFilePath_of ?e (config (st_tracee ?p)) (MntID (st_ctx ?p))
            (Ts (st_ctx (ref_second_event ?T 1001))) ''/bin/ls''
          \<mapsto> file_bytes ?e (proc_root_path 4242 ''/bin/ls''))"
    "capturedFiles (st_tracee (snd (processEvent ?e (ref_second_event ?T 1001))))
       ''5:/proc/4242/root/bin/ls'' = Some 1001"
    by simp_all
  show ?thesis
    unfolding same changed names first by simp
qed

text \<open>
  The claim as stated has none of the three conditions on errors and on the record.
  Below, in three runs with exec-capture on, the same namespace, pathname and first
  pid. With a full disk the first event of change-time 1000 fails in os.Create, nothing
  is recorded, and the second event of the same change-time calls CopyFileByPath
  again: two calls, no file written. With a first event captured and a second event of
  change-time 1001 that fails in os.Create, the record keeps the change-time 1000.
  With a record of change-time 1000 already there, two further events of that
  change-time make no call at all.
\<close>

theorem C6_counterexample:
  "fst (processEvent (ref_env_disk_full [''/proc/4242/root/bin/ls''])
      (ref_exec_event (ref_config\<lparr>Capture_Exec := True\<rparr>) (\<lambda>k. []) Map.empty 4242 1000)) =
     Some (OSError ''no space left on device'') \<and>
   copy_calls (st_tracee (snd (processEvent (ref_env_disk_full [''/proc/4242/root/bin/ls''])
      (ref_second_event
         (st_tracee (snd (processEvent (ref_env_disk_full [''/proc/4242/root/bin/ls''])
            (ref_exec_event (ref_config\<lparr>Capture_Exec := True\<rparr>) (\<lambda>k. []) Map.empty 4242 1000))))
         1000)))) =
     [(''/proc/4242/root/bin/ls'', ''/tmp/tracee/out/5/exec.1000.ls''),
      (''/proc/4242/root/bin/ls'', ''/tmp/tracee/out/5/exec.2000.ls'')] \<and>
   output_files (st_tracee (snd (processEvent (ref_env_disk_full [''/proc/4242/root/bin/ls''])
      (ref_second_event
         (st_tracee (snd (processEvent (ref_env_disk_full [''/proc/4242/root/bin/ls''])
            (ref_exec_event (ref_config\<lparr>Capture_Exec := True\<rparr>) (\<lambda>k. []) Map.empty 4242 1000))))
         1000)))) = Map.empty \<and>
   fst (processEvent (ref_env_disk_full [''/proc/4242/root/bin/ls''])
      (ref_second_event
         (st_tracee (snd (processEvent (ref_env [''/proc/4242/root/bin/ls''])
            (ref_exec_event (ref_config\<lparr>Capture_Exec := True\<rparr>) (\<lambda>k. []) Map.empty 4242 1000))))
         1001)) = Some (OSError ''no space left on device'') \<and>
   capturedFiles (st_tracee (snd (processEvent (ref_env_disk_full [''/proc/4242/root/bin/ls''])
      (ref_second_event
         (st_tracee (snd (processEvent (ref_env [''/proc/4242/root/bin/ls''])
            (ref_exec_event (ref_config\<lparr>Capture_Exec := True\<rparr>) (\<lambda>k. []) Map.empty 4242 1000))))
         1001)))) ''5:/proc/4242/root/bin/ls'' = Some 1000 \<and>
   copy_calls (st_tracee (snd (processEvent (ref_env [''/proc/4242/root/bin/ls''])
      (ref_second_event
         (st_tracee (snd (processEvent (ref_env [''/proc/4242/root/bin/ls''])
            (ref_second_event
               (st_tracee (snd (processEvent (ref_env [''/proc/4242/root/bin/ls''])
                  (ref_exec_event (ref_config\<lparr>Capture_Exec := True\<rparr>) (\<lambda>k. []) Map.empty
                     4242 1000))))
               1000))))
         1000)))) =
     copy_calls (st_tracee (snd (processEvent (ref_env [''/proc/4242/root/bin/ls''])
        (ref_exec_event (ref_config\<lparr>Capture_Exec := True\<rparr>) (\<lambda>k. []) Map.empty 4242 1000))))"
  by (simp add: ref_eval)

lemma exec_loop_first_only:
  "exec_loop e p fp (pid # pids) = exec_loop e p fp [pid]"
  by simp

text \<open>
  C1. The claim has the dispatcher try the pids of the bucket one after the other
  until one resolves, and return the last error when none does. In the code every
  path through the loop body leaves the loop (a failed copy returns at line 167), so
  only the first pid is tried. Below, the bucket is [7, 8], the path under the root of
  process 7 is not a file any more and the copy through process 8 would succeed:
  processEvent returns the error of the first pid after a single call of
  CopyFileByPath.
\<close>

theorem C1_failing_input:
  "GetBucket (ref_env [''/proc/8/root/bin/ls''])
     (pidsInMntns (bucket_insert (ref_env [''/proc/8/root/bin/ls''])
        (st_tracee (ref_exec_event (ref_config\<lparr>Capture_Exec := True\<rparr>)
           ((\<lambda>k. [])(5 := [7])) Map.empty 8 1000))
        (st_ctx (ref_exec_event (ref_config\<lparr>Capture_Exec := True\<rparr>)
           ((\<lambda>k. [])(5 := [7])) Map.empty 8 1000)))) 5 = [7, 8] \<and>
   fst (processEvent (ref_env [''/proc/8/root/bin/ls''])
      (ref_exec_event (ref_config\<lparr>Capture_Exec := True\<rparr>) ((\<lambda>k. [])(5 := [7])) Map.empty 8 1000))
     = Some (OSError ''no such file or directory'') \<and>
   copy_calls (st_tracee (snd (processEvent (ref_env [''/proc/8/root/bin/ls''])
      (ref_exec_event (ref_config\<lparr>Capture_Exec := True\<rparr>) ((\<lambda>k. [])(5 := [7])) Map.empty 8 1000))))
     = [(''/proc/7/root/bin/ls'', ''/tmp/tracee/out/5/exec.1000.ls'')] \<and>
   CopyFileByPath (ref_env [''/proc/8/root/bin/ls'']) Map.empty ''/proc/8/root/bin/ls''
     ''/tmp/tracee/out/5/exec.1000.ls'' =
     (None, [''/tmp/tracee/out/5/exec.1000.ls'' \<mapsto> ''bytes of /proc/8/root/bin/ls''])"
proof -
  let ?cfg = "ref_config\<lparr>Capture_Exec := True\<rparr>"
  let ?p = "ref_exec_event ?cfg ((\<lambda>k. [])(5 := [7])) Map.empty 8 1000"
  let ?e = "ref_env [''/proc/8/root/bin/ls''] :: (nat \<Rightarrow> nat list, string \<rightharpoonup> fileExecInfo) env"
  let ?ti = "bucket_insert ?e (st_tracee ?p) (st_ctx ?p)"
  have cfg: "Capture_Exec ?cfg" "\<not> Capture_Profile ?cfg"
    "Capture_OutputPath ?cfg = ''/tmp/tracee/out''"
    by (simp_all add: ref_config_def)
  have h1: "EventID (st_ctx ?p) = SchedProcessExecEventID" by (simp add: ref_exec_event_fields)
  have h2: "Capture_Exec (config (st_tracee ?p))" by (simp add: ref_exec_event_fields cfg)
  have h3: "st_args ?p ''pathname'' = Some (VString ''/bin/ls'')"
    by (simp add: ref_exec_event_fields)
  have h4: "''/bin/ls'' \<noteq> []" by simp
  have h5: "hd ''/bin/ls'' = CHR ''/''" by simp
  have h6: "st_args ?p ''ctime'' = Some (VInt64 1000)" by (simp add: ref_exec_event_fields)
  have h7: "GetBucket ?e (pidsInMntns ?ti) (MntID (st_ctx ?p)) = 7 # [8]"
    by (simp add: ref_bucket)
  have fresh: "capturedFiles ?ti ''5:/proc/7/root/bin/ls'' \<noteq> Some 1000"
    by (simp add: bucket_insert_frame ref_exec_event_fields)
  have np: "\<not> Capture_Profile (config ?ti)"
    by (simp add: bucket_insert_frame ref_exec_event_fields cfg)
  have cap: "capture_exec ?e ?ti (st_ctx ?p) ''/bin/ls'' (proc_root_path 7 ''/bin/ls'') 1000
      (capturedFileID_of (MntID (st_ctx ?p)) (proc_root_path 7 ''/bin/ls'')) =
     (Some (OSError ''no such file or directory''),
      ?ti\<lparr>copy_calls := copy_calls ?ti @
        [(''/proc/7/root/bin/ls'',
          destinationFilePath_of ?e (config ?ti) (MntID (st_ctx ?p)) (Ts (st_ctx ?p)) ''/bin/ls'')]\<rparr>)"
    unfolding ref_paths ref_exec_event_fields
    using ref_capture_exec [OF fresh np, of "[''/proc/8/root/bin/ls'']" "st_ctx ?p" "''/bin/ls''"
        "''/proc/7/root/bin/ls''"]
    by (simp add: ref_exec_event_fields)
  note res = exec_capture_result [OF h1 h2 h3 h4 h5 h6 h7 cap]
  have b: "GetBucket ?e (pidsInMntns ?ti) 5 = [7, 8]"
    using h7 by (simp add: ref_exec_event_fields)
  have c: "CopyFileByPath ?e Map.empty ''/proc/8/root/bin/ls'' ''/tmp/tracee/out/5/exec.1000.ls'' =
      (None, [''/tmp/tracee/out/5/exec.1000.ls'' \<mapsto> ''bytes of /proc/8/root/bin/ls''])"
    by (simp add: ref_copy)
  show ?thesis
    using b c res(1) res(2)
    by (simp add: bucket_insert_frame ref_exec_event_fields ref_destination cfg)
qed

section \<open>The pruning of the tail call\<close>

lemma same_pruning_state_refl: "same_pruning_state t t"
  by (simp add: same_pruning_state_def)

lemma same_pruning_state_trans:
  "same_pruning_state t t' \<Longrightarrow> same_pruning_state t' t'' \<Longrightarrow> same_pruning_state t t''"
  by (simp add: same_pruning_state_def)

lemma updateProfile_pruning: "same_pruning_state t (updateProfile t k ts)"
  by (simp add: same_pruning_state_def updateProfile_def split: option.splits)

lemma capture_exec_pruning: "same_pruning_state t (snd (capture_exec e t ctx fp src c cid))"
proof -
  have u: "same_pruning_state t
     (if Capture_Profile (config t) then updateProfile t k ts else t)" for k ts
    by (simp add: updateProfile_pruning same_pruning_state_refl)
  show ?thesis
    using u
    by (auto simp: capture_exec_def Let_def same_pruning_state_def
        split: option.splits prod.splits)
qed

lemma bucket_insert_pruning: "same_pruning_state t (bucket_insert e t ctx)"
  by (simp add: same_pruning_state_def bucket_insert_def)

lemma hash_exec_pruning:
  "same_pruning_state (st_tracee p) (st_tracee (hash_exec e p src c cid))"
  by (simp add: same_pruning_state_def hash_exec_def split: prod.splits)

lemma exec_body_pruning:
  "same_pruning_state (st_tracee p) (st_tracee (snd (exec_body e p fp pid)))"
proof (cases "assert_int64 (st_args p ''ctime'')")
  case None
  then show ?thesis by (simp add: exec_body_def Let_def same_pruning_state_refl)
next
  case (Some c)
  let ?src = "proc_root_path pid fp"
  let ?cid = "capturedFileID_of (MntID (st_ctx p)) ?src"
  obtain er t1 where cap: "(if Capture_Exec (config (st_tracee p))
        then capture_exec e (st_tracee p) (st_ctx p) fp ?src c ?cid
        else (None, st_tracee p)) = (er, t1)"
    by (cases "if Capture_Exec (config (st_tracee p))
        then capture_exec e (st_tracee p) (st_ctx p) fp ?src c ?cid
        else (None, st_tracee p)")
  have s1: "same_pruning_state (st_tracee p) t1"
  proof (cases "Capture_Exec (config (st_tracee p))")
    case True
    with cap have "t1 = snd (capture_exec e (st_tracee p) (st_ctx p) fp ?src c ?cid)" by simp
    then show ?thesis by (simp add: capture_exec_pruning)
  next
    case False
    with cap show ?thesis by (simp add: same_pruning_state_refl)
  qed
  have s2: "same_pruning_state t1 (st_tracee (hash_exec e (p\<lparr>st_tracee := t1\<rparr>) ?src c ?cid))"
    using hash_exec_pruning [of "p\<lparr>st_tracee := t1\<rparr>" e ?src c ?cid] by simp
  have "snd (exec_body e p fp pid) =
     (case er of Some err \<Rightarrow> p\<lparr>st_tracee := t1\<rparr>
      | None \<Rightarrow> if Output_ExecHash (config (st_tracee p))
                then hash_exec e (p\<lparr>st_tracee := t1\<rparr>) ?src c ?cid
                else p\<lparr>st_tracee := t1\<rparr>)"
    using Some cap by (simp add: exec_body_def Let_def split: option.splits)
  then show ?thesis
    using s1 same_pruning_state_trans [OF s1 s2] by (simp split: option.splits)
qed

lemma exec_loop_pruning:
  "same_pruning_state (st_tracee p) (st_tracee (snd (exec_loop e p fp pids)))"
  by (cases pids) (simp_all add: same_pruning_state_refl exec_body_pruning)

lemma process_exec_pruning:
  "same_pruning_state (st_tracee p) (st_tracee (snd (process_sched_process_exec e p)))"
proof -
  let ?p1 = "p\<lparr>st_tracee := bucket_insert e (st_tracee p) (st_ctx p)\<rparr>"
  have a: "same_pruning_state (st_tracee p) (st_tracee ?p1)"
    by (simp add: bucket_insert_pruning)
  have b: "same_pruning_state (st_tracee ?p1) (st_tracee (snd (exec_loop e ?p1 fp pids)))"
    for fp pids by (rule exec_loop_pruning)
  have c: "same_pruning_state (st_tracee p) (st_tracee (snd (exec_loop e ?p1 fp pids)))"
    for fp pids using same_pruning_state_trans [OF a b] .
  show ?thesis
    using a c
    by (simp add: process_sched_process_exec_def Let_def split: option.splits)
qed

lemma process_vfs_write_pruning:
  "same_pruning_state (st_tracee p) (st_tracee (snd (process_vfs_write p)))"
  by (simp add: process_vfs_write_def Let_def same_pruning_state_def split: option.splits)

lemma processEvent_pruning:
  assumes "EventID (st_ctx p) \<noteq> SocketEventID"
  shows "same_pruning_state (st_tracee p) (st_tracee (snd (processEvent e p)))"
  using assms
  by (cases "EventID (st_ctx p)")
     (simp_all add: processEvent_def process_vfs_write_pruning process_exec_pruning
        same_pruning_state_refl)

lemma processEvent_socket:
  assumes "EventID (st_ctx p) = SocketEventID"
  shows "st_tracee (snd (processEvent e p)) = removeSocketTailOnce_Do e (st_tracee p)"
  using assms by (simp add: processEvent_def)

lemma step_after_pruned:
  assumes "removeSocketTailOnce (st_tracee p)"
  shows "same_pruning_state (st_tracee p) (st_tracee (snd (processEvent e p)))"
proof (cases "EventID (st_ctx p) = SocketEventID")
  case True
  then show ?thesis
    using assms
    by (simp add: processEvent_socket removeSocketTailOnce_Do_def same_pruning_state_refl)
next
  case False
  then show ?thesis by (rule processEvent_pruning)
qed

lemma deliver_after_pruned:
  assumes "removeSocketTailOnce t"
  shows "same_pruning_state t (deliver e t evs)"
  using assms
proof (induction evs arbitrary: t)
  case Nil
  show ?case by (simp add: same_pruning_state_refl)
next
  case (Cons ev evs)
  obtain ctx args metas where ev: "ev = (ctx, args, metas)" by (cases ev)
  let ?p = "\<lparr>st_tracee = t, st_ctx = ctx, st_args = args, st_argMetas = metas\<rparr>"
  let ?t1 = "st_tracee (snd (processEvent e ?p))"
  have s: "same_pruning_state t ?t1"
    using step_after_pruned [of ?p e] Cons.prems by simp
  then have "removeSocketTailOnce ?t1"
    using Cons.prems by (simp add: same_pruning_state_def)
  then have "same_pruning_state ?t1 (deliver e ?t1 evs)" by (rule Cons.IH)
  with s show ?case unfolding ev by (simp add: same_pruning_state_trans)
qed

lemma removeSocketTail_cong:
  assumes "same_pruning_state t t'"
  shows "same_pruning_state ((removeSocketTail e t)\<lparr>removeSocketTailOnce := True\<rparr>)
           ((removeSocketTail e t')\<lparr>removeSocketTailOnce := True\<rparr>)"
  using assms
  by (simp add: same_pruning_state_def removeSocketTail_def Let_def split: option.splits)

lemma removeSocketTail_effect:
  "bpfModule t ''sys_exit_tails'' = None \<Longrightarrow>
     removeSocketTail e t = t\<lparr>bpf_calls := bpf_calls t @ [GetMap ''sys_exit_tails'']\<rparr>"
  "bpfModule t ''sys_exit_tails'' = Some m \<Longrightarrow> m SocketEventID = None \<Longrightarrow>
     removeSocketTail e t =
       t\<lparr>bpf_calls := bpf_calls t @ [GetMap ''sys_exit_tails'', GetValue SocketEventID]\<rparr>"
  "bpfModule t ''sys_exit_tails'' = Some m \<Longrightarrow> m SocketEventID = Some v \<Longrightarrow>
   bpf_DeleteKey e SocketEventID = None \<Longrightarrow>
     removeSocketTail e t =
       t\<lparr>bpf_calls := bpf_calls t @
            [GetMap ''sys_exit_tails'', GetValue SocketEventID, DeleteKey SocketEventID],
         bpfModule := (bpfModule t)(''sys_exit_tails'' \<mapsto> m(SocketEventID := None))\<rparr>"
  "bpfModule t ''sys_exit_tails'' = Some m \<Longrightarrow> m SocketEventID = Some v \<Longrightarrow>
   bpf_DeleteKey e SocketEventID = Some err \<Longrightarrow>
     removeSocketTail e t =
       t\<lparr>bpf_calls := bpf_calls t @
            [GetMap ''sys_exit_tails'', GetValue SocketEventID, DeleteKey SocketEventID],
         handled_errors := handled_errors t @ [err]\<rparr>"
  by (simp_all add: removeSocketTail_def Let_def)

lemma deliver_first_socket:
  assumes "\<not> removeSocketTailOnce t"
    and "\<exists>ev \<in> set evs. EventID (fst ev) = SocketEventID"
  shows "same_pruning_state ((removeSocketTail e t)\<lparr>removeSocketTailOnce := True\<rparr>)
           (deliver e t evs)"
  using assms
proof (induction evs arbitrary: t)
  case Nil
  then show ?case by simp
next
  case (Cons ev evs)
  obtain ctx args metas where ev: "ev = (ctx, args, metas)" by (cases ev)
  let ?p = "\<lparr>st_tracee = t, st_ctx = ctx, st_args = args, st_argMetas = metas\<rparr>"
  let ?t1 = "st_tracee (snd (processEvent e ?p))"
  have d: "deliver e t (ev # evs) = deliver e ?t1 evs" unfolding ev by simp
  show ?case
  proof (cases "EventID ctx = SocketEventID")
    case True
    have t1: "?t1 = (removeSocketTail e t)\<lparr>removeSocketTailOnce := True\<rparr>"
      using True Cons.prems(1)
      by (simp add: processEvent_socket removeSocketTailOnce_Do_def)
    have once: "removeSocketTailOnce ?t1" unfolding t1 by simp
    show ?thesis
      unfolding d using deliver_after_pruned [OF once, of e evs] unfolding t1 .
  next
    case False
    have sp: "same_pruning_state t ?t1"
      using processEvent_pruning [of ?p e] False by simp
    have n: "\<not> removeSocketTailOnce ?t1"
      using sp Cons.prems(1) by (simp add: same_pruning_state_def)
    have ex: "\<exists>ev \<in> set evs. EventID (fst ev) = SocketEventID"
      using Cons.prems(2) False ev by auto
    show ?thesis
      unfolding d
      using same_pruning_state_trans [OF removeSocketTail_cong [OF sp] Cons.IH [OF n ex]] .
  qed
qed

text \<open>
  C2, as the code has it. On a tracer whose Once has not run, after any list of events
  that holds at least one socket event (so after N socket events, N at least 1),
  removeSocketTail has run exactly once, and the Once has run from then on: any further
  events leave the calls made, the table, the handled errors and the Once as they are.
  The one run looks the table up; when the table is missing, nothing else happens; when
  the table has no entry for the socket event, the entry is looked up and nothing is
  deleted; when it has the entry, DeleteKey is called once, and either the entry is
  gone from the table, or the kernel refuses, the table is unchanged and the error is
  handed to handleError.
\<close>

theorem C2_pruning_once:
  assumes "\<not> removeSocketTailOnce t"
    and "\<exists>ev \<in> set evs. EventID (fst ev) = SocketEventID"
  shows "removeSocketTailOnce (deliver e t evs) \<and>
         same_pruning_state (deliver e t evs) (deliver e (deliver e t evs) later) \<and>
         (bpfModule t ''sys_exit_tails'' = None \<longrightarrow>
            bpf_calls (deliver e t evs) = bpf_calls t @ [GetMap ''sys_exit_tails''] \<and>
            bpfModule (deliver e t evs) = bpfModule t \<and>
            handled_errors (deliver e t evs) = handled_errors t) \<and>
         (\<forall>m. bpfModule t ''sys_exit_tails'' = Some m \<and> m SocketEventID = None \<longrightarrow>
            bpf_calls (deliver e t evs) =
              bpf_calls t @ [GetMap ''sys_exit_tails'', GetValue SocketEventID] \<and>
            bpfModule (deliver e t evs) = bpfModule t \<and>
            handled_errors (deliver e t evs) = handled_errors t) \<and>
         (\<forall>m v. bpfModule t ''sys_exit_tails'' = Some m \<and> m SocketEventID = Some v \<and>
                bpf_DeleteKey e SocketEventID = None \<longrightarrow>
            bpf_calls (deliver e t evs) =
              bpf_calls t @
                [GetMap ''sys_exit_tails'', GetValue SocketEventID, DeleteKey SocketEventID] \<and>
            bpfModule (deliver e t evs) =
              (bpfModule t)(''sys_exit_tails'' \<mapsto> m(SocketEventID := None)) \<and>
            handled_errors (deliver e t evs) = handled_errors t) \<and>
         (\<forall>m v err. bpfModule t ''sys_exit_tails'' = Some m \<and> m SocketEventID = Some v \<and>
                bpf_DeleteKey e SocketEventID = Some err \<longrightarrow>
            bpf_calls (deliver e t evs) =
              bpf_calls t @
                [GetMap ''sys_exit_tails'', GetValue SocketEventID, DeleteKey SocketEventID] \<and>
            bpfModule (deliver e t evs) = bpfModule t \<and>
            handled_errors (deliver e t evs) = handled_errors t @ [err])"
proof -
  let ?T = "deliver e t evs"
  note s = deliver_first_socket [OF assms, of e]
  have once: "removeSocketTailOnce ?T"
    using s by (simp add: same_pruning_state_def)
  have stay: "same_pruning_state ?T (deliver e ?T later)"
    using once by (rule deliver_after_pruned)
  have eq: "bpf_calls ?T = bpf_calls (removeSocketTail e t)"
    "bpfModule ?T = bpfModule (removeSocketTail e t)"
    "handled_errors ?T = handled_errors (removeSocketTail e t)"
    using s by (simp_all add: same_pruning_state_def)
  show ?thesis
    unfolding eq using once stay
    by (auto simp: removeSocketTail_effect)
qed

text \<open>The definitions that the evaluation of a delivery of socket events unfolds.\<close>

lemmas pruning_eval =
  processEvent_def removeSocketTailOnce_Do_def removeSocketTail_def Let_def
  ref_tracee_def ref_ctx_def ref_env_def same_pruning_state_def

theorem C2_witness:
  "bpf_calls (deliver (ref_env []) (ref_tracee ref_config)
      [(ref_ctx SocketEventID, Map.empty, []), (ref_ctx SocketEventID, Map.empty, []),
       (ref_ctx SocketEventID, Map.empty, [])]) =
     [GetMap ''sys_exit_tails'', GetValue SocketEventID, DeleteKey SocketEventID] \<and>
   bpfModule (deliver (ref_env []) (ref_tracee ref_config)
      [(ref_ctx SocketEventID, Map.empty, []), (ref_ctx SocketEventID, Map.empty, []),
       (ref_ctx SocketEventID, Map.empty, [])]) = [''sys_exit_tails'' \<mapsto> Map.empty] \<and>
   handled_errors (deliver (ref_env []) (ref_tracee ref_config)
      [(ref_ctx SocketEventID, Map.empty, []), (ref_ctx SocketEventID, Map.empty, []),
       (ref_ctx SocketEventID, Map.empty, [])]) = [] \<and>
   removeSocketTailOnce (deliver (ref_env []) (ref_tracee ref_config)
      [(ref_ctx SocketEventID, Map.empty, []), (ref_ctx SocketEventID, Map.empty, []),
       (ref_ctx SocketEventID, Map.empty, [])]) \<and>
   bpf_calls (deliver ((ref_env [])\<lparr>bpf_DeleteKey := (\<lambda>key. Some (OSError ''operation not permitted''))\<rparr>)
      (ref_tracee ref_config)
      [(ref_ctx SocketEventID, Map.empty, []), (ref_ctx SocketEventID, Map.empty, [])]) =
     [GetMap ''sys_exit_tails'', GetValue SocketEventID, DeleteKey SocketEventID] \<and>
   bpfModule (deliver ((ref_env [])\<lparr>bpf_DeleteKey := (\<lambda>key. Some (OSError ''operation not permitted''))\<rparr>)
      (ref_tracee ref_config)
      [(ref_ctx SocketEventID, Map.empty, []), (ref_ctx SocketEventID, Map.empty, [])]) =
     [''sys_exit_tails'' \<mapsto> [SocketEventID \<mapsto> 1]] \<and>
   handled_errors (deliver ((ref_env [])\<lparr>bpf_DeleteKey := (\<lambda>key. Some (OSError ''operation not permitted''))\<rparr>)
      (ref_tracee ref_config)
      [(ref_ctx SocketEventID, Map.empty, []), (ref_ctx SocketEventID, Map.empty, [])]) =
     [OSError ''operation not permitted''] \<and>
   bpf_calls (deliver (ref_env [])
      ((ref_tracee ref_config)\<lparr>bpfModule := [''sys_exit_tails'' \<mapsto> Map.empty]\<rparr>)
      [(ref_ctx SocketEventID, Map.empty, []), (ref_ctx SocketEventID, Map.empty, [])]) =
     [GetMap ''sys_exit_tails'', GetValue SocketEventID]"
proof -
  let ?t = "ref_tracee ref_config"
  let ?t2 = "(ref_tracee ref_config)\<lparr>bpfModule := [''sys_exit_tails'' \<mapsto> Map.empty]\<rparr>"
  let ?e = "ref_env [] :: (nat \<Rightarrow> nat list, string \<rightharpoonup> fileExecInfo) env"
  let ?e2 = "?e\<lparr>bpf_DeleteKey := (\<lambda>key. Some (OSError ''operation not permitted''))\<rparr>"
  let ?evs3 = "[(ref_ctx SocketEventID, Map.empty, []), (ref_ctx SocketEventID, Map.empty, []),
       (ref_ctx SocketEventID, Map.empty, [])]
       :: (8 word eventContext \<times> (string \<rightharpoonup> argval) \<times> ArgMeta list) list"
  let ?evs2 = "[(ref_ctx SocketEventID, Map.empty, []), (ref_ctx SocketEventID, Map.empty, [])]
       :: (8 word eventContext \<times> (string \<rightharpoonup> argval) \<times> ArgMeta list) list"
  have h1: "\<not> removeSocketTailOnce ?t" "\<not> removeSocketTailOnce ?t2"
    by (simp_all add: ref_tracee_def)
  have h2: "\<exists>ev \<in> set ?evs3. EventID (fst ev) = SocketEventID"
    "\<exists>ev \<in> set ?evs2. EventID (fst ev) = SocketEventID"
    by (simp_all add: ref_ctx_def)
  have m: "bpfModule ?t ''sys_exit_tails'' = Some [SocketEventID \<mapsto> 1]"
    "[SocketEventID \<mapsto> (1::32 word)] SocketEventID = Some 1"
    "bpfModule ?t2 ''sys_exit_tails'' = Some Map.empty"
    "bpf_DeleteKey ?e SocketEventID = None"
    "bpf_DeleteKey ?e2 SocketEventID = Some (OSError ''operation not permitted'')"
    "bpf_calls ?t = []" "handled_errors ?t = []" "bpf_calls ?t2 = []"
    "bpfModule ?t = [''sys_exit_tails'' \<mapsto> [SocketEventID \<mapsto> 1]]"
    by (simp_all add: ref_tracee_def ref_env_def)
  have u: "[''sys_exit_tails'' \<mapsto> [SocketEventID \<mapsto> (1::32 word)]]
      (''sys_exit_tails'' \<mapsto> [SocketEventID \<mapsto> 1](SocketEventID := None)) =
      [''sys_exit_tails'' \<mapsto> Map.empty]"
    by simp
  note a = C2_pruning_once [OF h1(1) h2(1), of ?e "[]"]
  note b = C2_pruning_once [OF h1(1) h2(2), of ?e2 "[]"]
  note c = C2_pruning_once [OF h1(2) h2(2), of ?e "[]"]
  from a m have a': "bpf_calls (deliver ?e ?t ?evs3) =
      [GetMap ''sys_exit_tails'', GetValue SocketEventID, DeleteKey SocketEventID]"
    "bpfModule (deliver ?e ?t ?evs3) = [''sys_exit_tails'' \<mapsto> Map.empty]"
    "handled_errors (deliver ?e ?t ?evs3) = []"
    "removeSocketTailOnce (deliver ?e ?t ?evs3)"
    by simp_all
  from b m have b': "bpf_calls (deliver ?e2 ?t ?evs2) =
      [GetMap ''sys_exit_tails'', GetValue SocketEventID, DeleteKey SocketEventID]"
    "bpfModule (deliver ?e2 ?t ?evs2) = [''sys_exit_tails'' \<mapsto> [SocketEventID \<mapsto> 1]]"
    "handled_errors (deliver ?e2 ?t ?evs2) = [OSError ''operation not permitted'']"
    by simp_all
  from c m have c': "bpf_calls (deliver ?e ?t2 ?evs2) =
      [GetMap ''sys_exit_tails'', GetValue SocketEventID]"
    by simp
  show ?thesis using a' b' c' by simp
qed

text \<open>
  The claim as stated has the lookup and the deletion executed once for every such
  sequence. Below, two socket events are delivered. On a tracer whose module has no
  table sys\_exit\_tails the only call is the lookup of the table; on a tracer whose
  table has no entry for the socket event the calls are the two lookups: in both,
  the Once has run and no deletion is executed.
\<close>

theorem C2_counterexample:
  "bpf_calls (deliver (ref_env []) ((ref_tracee ref_config)\<lparr>bpfModule := Map.empty\<rparr>)
      [(ref_ctx SocketEventID, Map.empty, []), (ref_ctx SocketEventID, Map.empty, [])]) =
     [GetMap ''sys_exit_tails''] \<and>
   removeSocketTailOnce (deliver (ref_env []) ((ref_tracee ref_config)\<lparr>bpfModule := Map.empty\<rparr>)
      [(ref_ctx SocketEventID, Map.empty, []), (ref_ctx SocketEventID, Map.empty, [])]) \<and>
   bpf_calls (deliver (ref_env [])
      ((ref_tracee ref_config)\<lparr>bpfModule := [''sys_exit_tails'' \<mapsto> Map.empty]\<rparr>)
      [(ref_ctx SocketEventID, Map.empty, []), (ref_ctx SocketEventID, Map.empty, [])]) =
     [GetMap ''sys_exit_tails'', GetValue SocketEventID]"
  by (simp add: pruning_eval)

end
